theory Spec2Isabelle
  imports Main "HOL-Library.AList" "HOL-Library.Char_ord" "HOL-Library.List_Lexorder"
begin

section \<open>Data model of the build command (cmd/build/v2/build.go)\<close>

text \<open>
  The records follow the Go structs the builder reads: \<open>model.StackVolume\<close>,
  \<open>model.BuildArg\<close>, \<open>model.BuildInfo\<close>, \<open>model.Manifest\<close> and
  \<open>types.BuildOptions\<close>. Go maps (\<open>model.ManifestBuild\<close>, \<open>model.BuildSecrets\<close>,
  the built-images control) are association lists: \<open>map_of\<close> is the lookup,
  \<open>AList.update\<close> the assignment and \<open>length\<close> is Go's \<open>len\<close> (the keys of a
  Go map are distinct). The order of the list is the order in which \<open>range\<close> visits
  the map, which Go leaves open: every result below holds for any order.
  A slice that the code compares with \<open>nil\<close> is a \<open>string list option\<close>.
\<close>

record StackVolume =
  LocalPath :: string
  RemotePath :: string

record BuildArg =
  argName :: string
  argValue :: string

record BuildInfo =
  Context :: string
  Dockerfile :: string
  Image :: string
  Target :: string
  Args :: "BuildArg list"
  Secrets :: "(string \<times> string) list"
  VolumesToInclude :: "StackVolume list"
  DependsOn :: "string list"

datatype ManifestType = StackType | OktetoManifestType

record Manifest =
  Name :: string
  Type :: ManifestType
  BuildSection :: "(string \<times> BuildInfo) list"
  DeployComposeSection :: bool

record BuildOptions =
  CommandArgs :: "string list"
  File :: string
  Tag :: string
  DevTag :: string
  optTarget :: string
  CacheFrom :: "string list option"
  optSecrets :: "string list option"
  NoCache :: bool
  EnableStages :: bool

text \<open>
  Errors are values. \<open>ErrBuildingService\<close> is
  \<^verbatim>\<open>fmt.Errorf("error building service '%s': %w", svcToBuild, err)\<close>,
  \<open>ErrImageRequired\<close> is
  \<^verbatim>\<open>fmt.Errorf("'build.%s.image' is required if your context doesn't have Okteto installed", svcToBuild)\<close>,
  \<open>UserError\<close> is \<open>oktetoErrors.UserError\<close> with its message and its hint,
  \<open>CollaboratorError\<close> is any error a collaborator returns, and
  \<open>NilPointerPanic\<close> is the panic of reading a field of \<open>manifest.Build[svc]\<close>
  when the key is absent.
\<close>

datatype error =
    ErrNoServicesToBuildDefined
  | ErrNoFlagAllowedOnSingleImageBuild
  | ErrInvalidServices "string list"
  | ErrImageRequired string
  | ErrBuildingService string error
  | ErrExpandingBuildArgs string error
  | ErrAccessingImage string error
  | UserError string string
  | ErrNotFound
  | CollaboratorError string
  | NilPointerPanic

text \<open>
  The calls the builder makes to its collaborators, in the order it makes them. \<open>Attempt\<close>
  marks the point where a unit has passed both guards of the loop and its analytics record
  is created (build.go, lines 195 to 215), \<open>BuildServiceImages\<close> is the call of
  \<open>bc.buildServiceImages\<close> in line 253; the other events are the calls to the
  collaborators. The log lines, the stage shown to the user and the fields of the analytics
  record (hashes, durations, flags) change nothing the builder reads again and are left out.
\<close>

datatype event =
    Chdir string
  | Attempt string
  | CheckIfBuildHashIsBuilt string string string
  | CloneGlobalImageToDev string string
  | BuildServiceImages string
  | SetServiceEnvVars string string
  | CreateDockerfileWithVolumeMounts string "StackVolume list"
  | V1Build BuildOptions
  | GetImageTagWithDigest string

text \<open>
  The error of \<open>os.Stat\<close>. \<open>StatOk\<close> is \<open>nil\<close>: there is a file or directory at the
  path. \<open>StatNotExist\<close> is \<open>ENOENT\<close>, the one error \<open>os.IsNotExist\<close> holds
  of. \<open>StatNotDir\<close> is \<open>ENOTDIR\<close>: a directory of the path is a plain file, so
  nothing is at the path either. \<open>StatOtherError\<close> is any other error (permission
  denied, a loop of links), which leaves open what is at the path.
\<close>

datatype stat_error = StatOk | StatNotExist | StatNotDir | StatOtherError

text \<open>
  The collaborators and the ambient configuration. A collaborator with side effects takes
  the history of calls made so far, so its answer may change as the build proceeds (a
  registry that knows an image only after it was pushed); \<open>os.Stat\<close> reads a file
  system that the model keeps fixed. The two taggers, the hasher,
  the image checker and \<open>build.OptsFromBuildInfo\<close> live in files outside
  cmd/build/v2/build.go and are parameters here. \<open>ctxIsOkteto\<close> is both
  \<open>okteto.IsOkteto()\<close> and \<open>okteto.Context().IsOkteto\<close>, which read the same
  current context.
\<close>

record collaborators =
  OktetoDeployRemote :: bool
  ctxIsOkteto :: bool
  ctxNamespace :: string
  IsCleanProject :: bool
  IsSmartBuildsEnabled :: bool
  GetWorkdirFromManifestPath :: "string \<Rightarrow> string"
  GetManifestPathFromWorkdir :: "string \<Rightarrow> string \<Rightarrow> string"
  osChdir :: "string \<Rightarrow> error option"
  osGetwd :: "error + string"
  K8sClientProvide :: "error option"
  InferName :: "string \<Rightarrow> string \<Rightarrow> string \<Rightarrow> string"
  GetSvcsToBuildFromList :: "(string \<times> BuildInfo) list \<Rightarrow> string list \<Rightarrow> string list"
  hashService :: "BuildInfo \<Rightarrow> string"
  imageTagger :: "string \<Rightarrow> string \<Rightarrow> BuildInfo \<Rightarrow> string \<Rightarrow> string"
  imageWithVolumesTagger :: "string \<Rightarrow> string \<Rightarrow> BuildInfo \<Rightarrow> string \<Rightarrow> string"
  checkIfBuildHashIsBuilt ::
    "event list \<Rightarrow> bool \<Rightarrow> string \<Rightarrow> string \<Rightarrow> string \<Rightarrow> string \<times> bool"
  IsGlobalRegistry :: "string \<Rightarrow> bool"
  IsOktetoRegistry :: "string \<Rightarrow> bool"
  cloneGlobalImageToDev :: "event list \<Rightarrow> string \<Rightarrow> string \<Rightarrow> error + string"
  addBuildArgs :: "event list \<Rightarrow> BuildInfo \<Rightarrow> error + BuildInfo"
  OptsFromBuildInfo :: "string \<Rightarrow> string \<Rightarrow> BuildInfo \<Rightarrow> BuildOptions \<Rightarrow> BuildOptions"
  createDockerfileWithVolumeMounts ::
    "event list \<Rightarrow> string \<Rightarrow> StackVolume list \<Rightarrow> error + BuildInfo"
  v1Build :: "event list \<Rightarrow> BuildOptions \<Rightarrow> error option"
  getImageTagWithDigest :: "event list \<Rightarrow> string \<Rightarrow> error + string"
  osStat :: "string \<Rightarrow> stat_error"
  expandEnvVars :: "event list \<Rightarrow> error option"

text \<open>
  The state \<open>Build\<close> threads through its loop: the manifest (whose build section
  \<open>buildServiceImages\<close> writes to through a pointer), the built-images control and the
  calls made so far.
\<close>

record build_state =
  manifest :: Manifest
  builtImagesControl :: "(string \<times> bool) list"
  trace :: "event list"

definition emit :: "event \<Rightarrow> build_state \<Rightarrow> build_state" where
  "emit e st = st\<lparr>trace := trace st @ [e]\<rparr>"

section \<open>The helpers of build.go\<close>

fun areAllServicesBuilt :: "string list \<Rightarrow> (string \<times> bool) list \<Rightarrow> bool" where
  "areAllServicesBuilt [] control = True"
| "areAllServicesBuilt (service # services) control =
     (if map_of control service = None then False
      else areAllServicesBuilt services control)"

definition skipServiceBuild :: "string \<Rightarrow> (string \<times> bool) list \<Rightarrow> bool" where
  "skipServiceBuild service control =
     (case map_of control service of None \<Rightarrow> False | Some b \<Rightarrow> b)"

definition serviceHasDockerfile :: "BuildInfo \<Rightarrow> bool" where
  "serviceHasDockerfile buildInfo = (Dockerfile buildInfo \<noteq> [])"

definition serviceHasVolumesToInclude :: "BuildInfo \<Rightarrow> bool" where
  "serviceHasVolumesToInclude buildInfo = (0 < length (VolumesToInclude buildInfo))"

definition os_IsNotExist :: "stat_error \<Rightarrow> bool" where
  "os_IsNotExist err = (err = StatNotExist)"

text \<open>The loop of \<open>getAccessibleVolumeMounts\<close>, appending to the accumulator.\<close>

fun accessibleVolumeMounts_loop ::
  "collaborators \<Rightarrow> StackVolume list \<Rightarrow> StackVolume list \<Rightarrow> StackVolume list" where
  "accessibleVolumeMounts_loop c [] accessibleVolumeMounts = accessibleVolumeMounts"
| "accessibleVolumeMounts_loop c (volume # volumes) accessibleVolumeMounts =
     (if \<not> os_IsNotExist (osStat c (LocalPath volume))
      then accessibleVolumeMounts_loop c volumes (accessibleVolumeMounts @ [volume])
      else accessibleVolumeMounts_loop c volumes accessibleVolumeMounts)"

definition getAccessibleVolumeMounts :: "collaborators \<Rightarrow> BuildInfo \<Rightarrow> StackVolume list" where
  "getAccessibleVolumeMounts c buildInfo =
     accessibleVolumeMounts_loop c (VolumesToInclude buildInfo) []"

definition getBuildInfoWithoutVolumeMounts ::
  "collaborators \<Rightarrow> BuildInfo \<Rightarrow> bool \<Rightarrow> BuildInfo" where
  "getBuildInfoWithoutVolumeMounts c buildInfo isStackManifest =
     (let result = buildInfo;
          result = (if 0 < length (VolumesToInclude result)
                    then result\<lparr>VolumesToInclude := []\<rparr> else result)
      in if isStackManifest \<and> ctxIsOkteto c \<and> \<not> IsOktetoRegistry c (Image buildInfo)
         then result\<lparr>Image := []\<rparr> else result)"

definition getBuildInfoWithVolumeMounts ::
  "collaborators \<Rightarrow> BuildInfo \<Rightarrow> bool \<Rightarrow> BuildInfo" where
  "getBuildInfoWithVolumeMounts c buildInfo isStackManifest =
     (let result = buildInfo;
          result = (if isStackManifest \<and> ctxIsOkteto c then result\<lparr>Image := []\<rparr> else result)
      in result\<lparr>VolumesToInclude := getAccessibleVolumeMounts c buildInfo\<rparr>)"

definition getToBuildSvcs :: "collaborators \<Rightarrow> Manifest \<Rightarrow> BuildOptions \<Rightarrow> string list" where
  "getToBuildSvcs c m options =
     (if length (CommandArgs options) \<noteq> 0
      then GetSvcsToBuildFromList c (BuildSection m) (CommandArgs options)
      else map fst (BuildSection m))"

fun validateServices_loop ::
  "(string \<times> BuildInfo) list \<Rightarrow> string list \<Rightarrow> string list \<Rightarrow> string list" where
  "validateServices_loop buildSection [] invalid = invalid"
| "validateServices_loop buildSection (service # svcs) invalid =
     (if map_of buildSection service = None
      then validateServices_loop buildSection svcs (invalid @ [service])
      else validateServices_loop buildSection svcs invalid)"

definition validateServices :: "(string \<times> BuildInfo) list \<Rightarrow> string list \<Rightarrow> error option" where
  "validateServices buildSection svcsToBuild =
     (let invalid = validateServices_loop buildSection svcsToBuild []
      in if length invalid \<noteq> 0 then Some (ErrInvalidServices invalid) else None)"

definition validateOptions :: "Manifest \<Rightarrow> string list \<Rightarrow> BuildOptions \<Rightarrow> error option" where
  "validateOptions m svcsToBuild options =
     (if length svcsToBuild = 0 then Some ErrNoServicesToBuildDefined
      else case validateServices (BuildSection m) svcsToBuild of
        Some err \<Rightarrow> Some err
      | None \<Rightarrow>
          if length svcsToBuild \<noteq> 1 \<and>
             (Tag options \<noteq> [] \<or> optTarget options \<noteq> [] \<or>
              CacheFrom options \<noteq> None \<or> optSecrets options \<noteq> None)
          then Some ErrNoFlagAllowedOnSingleImageBuild
          else None)"

section \<open>Building one unit\<close>

text \<open>
  \<open>buildSvcFromDockerfile\<close>: the build information without its volume mounts is tagged
  by the standard tagger, the build arguments are expanded, the build runs, and the digest
  of the pushed reference (the dev tag when there is one) is resolved.
\<close>

definition buildSvcFromDockerfile ::
  "collaborators \<Rightarrow> string \<Rightarrow> BuildOptions \<Rightarrow> build_state \<Rightarrow> (error + string) \<times> build_state" where
  "buildSvcFromDockerfile c svcName options st =
     (case map_of (BuildSection (manifest st)) svcName of
        None \<Rightarrow> (Inl NilPointerPanic, st)
      | Some buildInfo \<Rightarrow>
          let isStackManifest = (Type (manifest st) = StackType);
              buildSvcInfo = getBuildInfoWithoutVolumeMounts c buildInfo isStackManifest;
              buildHash = hashService c buildSvcInfo;
              tagToBuild = imageTagger c (Name (manifest st)) svcName buildSvcInfo buildHash;
              buildSvcInfo = buildSvcInfo\<lparr>Image := tagToBuild\<rparr>
          in (case addBuildArgs c (trace st) buildSvcInfo of
               Inl err \<Rightarrow> (Inl (ErrExpandingBuildArgs svcName err), st)
             | Inr buildSvcInfo \<Rightarrow>
                 let buildOptions = OptsFromBuildInfo c (Name (manifest st)) svcName buildSvcInfo options;
                     st1 = emit (V1Build buildOptions) st
                 in (case v1Build c (trace st) buildOptions of
                       Some err \<Rightarrow> (Inl err, st1)
                     | None \<Rightarrow>
                         let reference = (if DevTag buildOptions \<noteq> [] then DevTag buildOptions
                                          else Tag buildOptions);
                             st2 = emit (GetImageTagWithDigest reference) st1
                         in (case getImageTagWithDigest c (trace st1) reference of
                               Inl err \<Rightarrow> (Inl (ErrAccessingImage reference err), st2)
                             | Inr imageTagWithDigest \<Rightarrow> (Inr imageTagWithDigest, st2)))))"

text \<open>
  \<open>addVolumeMounts\<close>: the second stage. The base image is the \<open>--tag\<close> option when
  given, else the unit's image; the mounts forwarded to
  \<open>build.CreateDockerfileWithVolumeMounts\<close> are those of \<open>getBuildInfoWithVolumeMounts\<close>.
  The error of the digest lookup is formatted with \<open>options.Tag\<close>, as the code does.
\<close>

definition addVolumeMounts ::
  "collaborators \<Rightarrow> string \<Rightarrow> BuildOptions \<Rightarrow> build_state \<Rightarrow> (error + string) \<times> build_state" where
  "addVolumeMounts c svcName options st =
     (case map_of (BuildSection (manifest st)) svcName of
        None \<Rightarrow> (Inl NilPointerPanic, st)
      | Some buildInfo \<Rightarrow>
          let isStackManifest = (Type (manifest st) = StackType \<or> DeployComposeSection (manifest st));
              fromImage = (if Tag options \<noteq> [] then Tag options else Image buildInfo);
              buildInfoCopy = buildInfo\<lparr>Image := []\<rparr>;
              buildHash = hashService c buildInfoCopy;
              tagToBuild = imageWithVolumesTagger c (Name (manifest st)) svcName buildInfoCopy buildHash;
              buildSvcInfo = getBuildInfoWithVolumeMounts c buildInfo isStackManifest;
              st1 = emit (CreateDockerfileWithVolumeMounts fromImage (VolumesToInclude buildSvcInfo)) st
          in (case createDockerfileWithVolumeMounts c (trace st) fromImage (VolumesToInclude buildSvcInfo) of
               Inl err \<Rightarrow> (Inl err, st1)
             | Inr svcBuild \<Rightarrow>
                 let buildOptions =
                       (OptsFromBuildInfo c (Name (manifest st)) svcName svcBuild options)\<lparr>Tag := tagToBuild\<rparr>;
                     st2 = emit (V1Build buildOptions) st1
                 in (case v1Build c (trace st1) buildOptions of
                       Some err \<Rightarrow> (Inl err, st2)
                     | None \<Rightarrow>
                         let st3 = emit (GetImageTagWithDigest (Tag buildOptions)) st2
                         in (case getImageTagWithDigest c (trace st2) (Tag buildOptions) of
                               Inl err \<Rightarrow> (Inl (ErrAccessingImage (Tag options) err), st3)
                             | Inr imageTagWithDigest \<Rightarrow> (Inr imageTagWithDigest, st3)))))"

text \<open>
  \<open>buildSvcInfo.Image = image\<close> in \<open>buildServiceImages\<close> writes through the pointer
  held by the manifest's build section.
\<close>

definition setImage :: "string \<Rightarrow> string \<Rightarrow> build_state \<Rightarrow> build_state" where
  "setImage svcName img st =
     (case map_of (BuildSection (manifest st)) svcName of
        None \<Rightarrow> st
      | Some buildInfo \<Rightarrow>
          st\<lparr>manifest := (manifest st)\<lparr>BuildSection :=
               AList.update svcName (buildInfo\<lparr>Image := img\<rparr>) (BuildSection (manifest st))\<rparr>\<rparr>)"

text \<open>
  \<open>buildServiceImages\<close>: the cases of the \<open>switch\<close> in their order. The fourth case
  falls through to \<open>return "", nil\<close> when the context is not okteto; the default case only
  logs and returns the same.
\<close>

definition buildServiceImages ::
  "collaborators \<Rightarrow> string \<Rightarrow> BuildOptions \<Rightarrow> build_state \<Rightarrow> (error + string) \<times> build_state" where
  "buildServiceImages c svcName options st =
     (case map_of (BuildSection (manifest st)) svcName of
        None \<Rightarrow> (Inl NilPointerPanic, st)
      | Some buildSvcInfo \<Rightarrow>
          if serviceHasVolumesToInclude buildSvcInfo \<and> \<not> ctxIsOkteto c then
            (Inl (UserError ''Build with volume mounts is not supported on vanilla contexts''
                            ''Please connect to a okteto context and try again''), st)
          else if serviceHasDockerfile buildSvcInfo \<and> serviceHasVolumesToInclude buildSvcInfo then
            (case buildSvcFromDockerfile c svcName options st of
               (Inl err, st1) \<Rightarrow> (Inl err, st1)
             | (Inr img, st1) \<Rightarrow> addVolumeMounts c svcName options (setImage svcName img st1))
          else if serviceHasDockerfile buildSvcInfo then
            buildSvcFromDockerfile c svcName options st
          else if serviceHasVolumesToInclude buildSvcInfo then
            (if ctxIsOkteto c then addVolumeMounts c svcName options st else (Inr [], st))
          else (Inr [], st))"

section \<open>The scheduler: \<open>Build\<close>\<close>

text \<open>
  A unit is recorded as built: its environment variables are exported and the control
  gets \<open>builtImagesControl[svcToBuild] = true\<close>.
\<close>

definition markBuilt :: "string \<Rightarrow> string \<Rightarrow> build_state \<Rightarrow> build_state" where
  "markBuilt svcToBuild img st =
     (emit (SetServiceEnvVars svcToBuild img) st)
       \<lparr>builtImagesControl := AList.update svcToBuild True (builtImagesControl st)\<rparr>"

text \<open>
  Lines 249 to 261 of the loop body: the image is mandatory outside an okteto context,
  then \<open>buildServiceImages\<close> runs and its error is wrapped with the unit's name.
  The result is \<open>Some err\<close> when \<open>Build\<close> returns \<open>err\<close> at this point.
\<close>

definition buildAndMark ::
  "collaborators \<Rightarrow> BuildOptions \<Rightarrow> string \<Rightarrow> BuildInfo \<Rightarrow> build_state \<Rightarrow> error option \<times> build_state" where
  "buildAndMark c options svcToBuild buildSvcInfo st =
     (if \<not> ctxIsOkteto c \<and> Image buildSvcInfo = [] then (Some (ErrImageRequired svcToBuild), st)
      else case buildServiceImages c svcToBuild options (emit (BuildServiceImages svcToBuild) st) of
             (Inl err, st1) \<Rightarrow> (Some (ErrBuildingService svcToBuild err), st1)
           | (Inr imageTag, st1) \<Rightarrow> (None, markBuilt svcToBuild imageTag st1))"

text \<open>
  The cache check of lines 217 to 247, entered only when \<open>cacheEnabled\<close> holds.
\<close>

definition cacheEnabled :: "collaborators \<Rightarrow> BuildOptions \<Rightarrow> bool" where
  "cacheEnabled c options = (\<not> NoCache options \<and> IsCleanProject c \<and> IsSmartBuildsEnabled c)"

text \<open>The body of the inner loop for one unit (lines 187 to 261).\<close>

definition buildStep ::
  "collaborators \<Rightarrow> BuildOptions \<Rightarrow> string \<Rightarrow> build_state \<Rightarrow> error option \<times> build_state" where
  "buildStep c options svcToBuild st =
     (if skipServiceBuild svcToBuild (builtImagesControl st) then (None, st)
      else case map_of (BuildSection (manifest st)) svcToBuild of
        None \<Rightarrow> (Some NilPointerPanic, st)
      | Some buildSvcInfo \<Rightarrow>
          if \<not> areAllServicesBuilt (DependsOn buildSvcInfo) (builtImagesControl st) then (None, st)
          else
            let st1 = emit (Attempt svcToBuild) st in
            if cacheEnabled c options then
              let buildHash = hashService c buildSvcInfo;
                  (imageWithDigest, isBuilt) =
                     checkIfBuildHashIsBuilt c (trace st1) (serviceHasVolumesToInclude buildSvcInfo)
                       (Name (manifest st)) svcToBuild buildHash;
                  st2 = emit (CheckIfBuildHashIsBuilt (Name (manifest st)) svcToBuild buildHash) st1
              in if isBuilt then
                   (if IsGlobalRegistry c imageWithDigest then
                      (let st3 = emit (CloneGlobalImageToDev imageWithDigest buildHash) st2
                       in case cloneGlobalImageToDev c (trace st2) imageWithDigest buildHash of
                            Inl err \<Rightarrow> (Some err, st3)
                          | Inr devImage \<Rightarrow> (None, markBuilt svcToBuild devImage st3))
                    else (None, markBuilt svcToBuild imageWithDigest st2))
                 else buildAndMark c options svcToBuild buildSvcInfo st2
            else buildAndMark c options svcToBuild buildSvcInfo st1)"

text \<open>
  One pass of \<open>for _, svcToBuild := range toBuildSvcs\<close>; a \<open>return\<close> in the body ends it.
\<close>

fun buildRound ::
  "collaborators \<Rightarrow> BuildOptions \<Rightarrow> string list \<Rightarrow> build_state \<Rightarrow> error option \<times> build_state" where
  "buildRound c options [] st = (None, st)"
| "buildRound c options (svcToBuild # svcs) st =
     (case buildStep c options svcToBuild st of
        (Some err, st1) \<Rightarrow> (Some err, st1)
      | (None, st1) \<Rightarrow> buildRound c options svcs st1)"

text \<open>
  The outer loop \<open>for len(builtImagesControl) != len(toBuildSvcs)\<close>. Nothing bounds the
  number of rounds, so the loop is a partial function: \<open>None\<close> is a loop that never ends.
\<close>

partial_function (option) buildLoop ::
  "collaborators \<Rightarrow> BuildOptions \<Rightarrow> string list \<Rightarrow> build_state \<Rightarrow> (error option \<times> build_state) option" where
  "buildLoop c options toBuildSvcs st =
     (if length (builtImagesControl st) \<noteq> length toBuildSvcs then
        (case buildRound c options toBuildSvcs st of
           (Some err, st1) \<Rightarrow> Some (Some err, st1)
         | (None, st1) \<Rightarrow> buildLoop c options toBuildSvcs st1)
      else Some (None, st))"

declare buildLoop.simps [code]

text \<open>
  The first lines of \<open>Build\<close>: the working directory follows the manifest path, and a
  manifest without a name gets an inferred one. \<open>Inl\<close> is an early \<open>return err\<close>.
\<close>

definition enterWorkdir ::
  "collaborators \<Rightarrow> BuildOptions \<Rightarrow> build_state \<Rightarrow> (error + BuildOptions) \<times> build_state" where
  "enterWorkdir c options st =
     (if File options \<noteq> [] then
        (let workdir = GetWorkdirFromManifestPath c (File options);
             st1 = emit (Chdir workdir) st
         in case osChdir c workdir of
              Some err \<Rightarrow> (Inl err, st1)
            | None \<Rightarrow> (Inr (options\<lparr>File := GetManifestPathFromWorkdir c (File options) workdir\<rparr>), st1))
      else (Inr options, st))"

definition inferManifestName ::
  "collaborators \<Rightarrow> BuildOptions \<Rightarrow> build_state \<Rightarrow> error + build_state" where
  "inferManifestName c options st =
     (if Name (manifest st) = [] then
        (case osGetwd c of
           Inl err \<Rightarrow> Inl err
         | Inr wd \<Rightarrow>
             (case K8sClientProvide c of
                Some err \<Rightarrow> Inl err
              | None \<Rightarrow>
                  Inr (st\<lparr>manifest := (manifest st)\<lparr>Name := InferName c wd (ctxNamespace c) (File options)\<rparr>\<rparr>)))
      else Inr st)"

text \<open>
  Everything \<open>Build\<close> does before its loop: the remote-deploy shortcut, the working
  directory, the manifest name, the units to build and their validation. \<open>Inl\<close> is a
  return before the loop (\<open>None\<close> for \<open>return nil\<close>); \<open>Inr\<close> carries the options,
  \<open>toBuildSvcs\<close> and the state the loop starts from. A validation that finds no unit to
  build makes \<open>Build\<close> return \<open>nil\<close>.
\<close>

definition prepareBuild ::
  "collaborators \<Rightarrow> BuildOptions \<Rightarrow> Manifest \<Rightarrow>
   (error option \<times> build_state) + (BuildOptions \<times> string list \<times> build_state)" where
  "prepareBuild c options0 m =
     (let st0 = \<lparr>manifest = m, builtImagesControl = [], trace = []\<rparr> in
      if OktetoDeployRemote c then Inl (None, st0)
      else case enterWorkdir c options0 st0 of
        (Inl err, st1) \<Rightarrow> Inl (Some err, st1)
      | (Inr options, st1) \<Rightarrow>
          (case inferManifestName c options st1 of
             Inl err \<Rightarrow> Inl (Some err, st1)
           | Inr st2 \<Rightarrow>
               let toBuildSvcs = getToBuildSvcs c (manifest st2) options in
               (case validateOptions (manifest st2) toBuildSvcs options of
                  Some err \<Rightarrow>
                    if err = ErrNoServicesToBuildDefined then Inl (None, st2)
                    else Inl (Some err, st2)
                | None \<Rightarrow> Inr (options, toBuildSvcs, st2))))"

text \<open>
  \<open>Build\<close> itself: the preparation, the loop, and the expansion of the manifest's
  variables. \<open>Some (None, st)\<close> is \<open>return nil\<close>, \<open>Some (Some err, st)\<close> is
  \<open>return err\<close>, and \<open>None\<close> is a call that never returns.
\<close>

definition Build ::
  "collaborators \<Rightarrow> BuildOptions \<Rightarrow> Manifest \<Rightarrow> (error option \<times> build_state) option" where
  "Build c options0 m =
     (case prepareBuild c options0 m of
        Inl early \<Rightarrow> Some early
      | Inr (options, toBuildSvcs, st) \<Rightarrow>
          (case buildLoop c options toBuildSvcs st of
             None \<Rightarrow> None
           | Some (Some err, st1) \<Rightarrow> Some (Some err, st1)
           | Some (None, st1) \<Rightarrow> Some (expandEnvVars c (trace st1), st1)))"

section \<open>The fingerprint and the taggers\<close>

text \<open>
  The service hasher (\<open>hashProjectCommit\<close>) is called by \<open>Build\<close> and exercised by
  \<open>Test_getBuildHashFromCommit\<close>, and the two taggers are called by
  \<open>buildSvcFromDockerfile\<close> and \<open>addVolumeMounts\<close>, but their files are not part of
  the sources. The definitions of this section follow sections 4.1 and 4.2 of the
  specification.
\<close>

text \<open>
  Modelled from the spec: the characters of a variable name in a reference such as
  \<open>$BAR\<close> (section 4.1, step 2), which the hasher's file would take from its expansion
  library: letters, digits and the underscore.
\<close>

definition isNameChar :: "char \<Rightarrow> bool" where
  "isNameChar ch =
     ((CHR ''a'' \<le> ch \<and> ch \<le> CHR ''z'') \<or> (CHR ''A'' \<le> ch \<and> ch \<le> CHR ''Z'') \<or>
      (CHR ''0'' \<le> ch \<and> ch \<le> CHR ''9'') \<or> ch = CHR ''_'')"

text \<open>
  Modelled from the spec: the ambient variable environment of section 4.1, step 2, read by
  the missing hasher; a variable that is not set is empty.
\<close>

definition getenv :: "(string \<times> string) list \<Rightarrow> string \<Rightarrow> string" where
  "getenv environ name = (case map_of environ name of None \<Rightarrow> [] | Some v \<Rightarrow> v)"

text \<open>
  Modelled from the spec: what a reference of the missing hasher's expansion stands for
  (section 4.1, step 2): the value of the variable; a dollar sign with no name after it
  stays.
\<close>

definition expandReference :: "(string \<times> string) list \<Rightarrow> string \<Rightarrow> string" where
  "expandReference environ name = (if name = [] then ''$'' else getenv environ name)"

text \<open>
  Modelled from the spec: the expansion of a value against the environment, done by the
  missing hasher (section 4.1, step 2: \<open>$BAR\<close> with \<open>BAR=bar\<close> expands to
  \<open>bar\<close>). A reference is a dollar sign and the longest run of name characters after
  it; the second argument of \<open>expandFrom\<close> is the name read so far.
\<close>

fun expandFrom :: "(string \<times> string) list \<Rightarrow> string option \<Rightarrow> string \<Rightarrow> string" where
  "expandFrom environ None [] = []"
| "expandFrom environ (Some name) [] = expandReference environ name"
| "expandFrom environ None (ch # s) =
     (if ch = CHR ''$'' then expandFrom environ (Some []) s
      else ch # expandFrom environ None s)"
| "expandFrom environ (Some name) (ch # s) =
     (if isNameChar ch then expandFrom environ (Some (name @ [ch])) s
      else if ch = CHR ''$'' then expandReference environ name @ expandFrom environ (Some []) s
      else expandReference environ name @ ch # expandFrom environ None s)"

text \<open>Modelled from the spec: the expansion of a whole value by the missing hasher.\<close>

definition expandEnv :: "(string \<times> string) list \<Rightarrow> string \<Rightarrow> string" where
  "expandEnv environ s = expandFrom environ None s"

text \<open>
  Modelled from the spec: the entries of a section of the grammar string of the missing
  hasher, separated by semicolons (section 4.1, step 3).
\<close>

fun joinStrings :: "string list \<Rightarrow> string \<Rightarrow> string" where
  "joinStrings [] sep = []"
| "joinStrings [x] sep = x"
| "joinStrings (x # y # xs) sep = x @ sep @ joinStrings (y # xs) sep"

text \<open>
  Modelled from the spec: the build arguments of the missing hasher's grammar string, in
  their declared order, each value expanded (section 4.1, steps 2 and 3).
\<close>

definition buildArgsSection :: "(string \<times> string) list \<Rightarrow> BuildArg list \<Rightarrow> string" where
  "buildArgsSection environ args =
     joinStrings (map (\<lambda>a. argName a @ ''='' @ expandEnv environ (argValue a)) args) '';''"

text \<open>
  Modelled from the spec: the secrets of the missing hasher's grammar string, in the
  lexicographic order of their keys (section 4.1, step 3).
\<close>

definition secretsSection :: "(string \<times> string) list \<Rightarrow> string" where
  "secretsSection secrets =
     joinStrings (map (\<lambda>(k, v). k @ ''='' @ v) (sort_key fst secrets)) '';''"

text \<open>
  Modelled from the spec: the grammar string of the missing hasher (section 4.1, step 3).
  Every section is its label, its entries and a semicolon, so a section without entries is
  its label and a semicolon.
\<close>

definition commitGrammar :: "(string \<times> string) list \<Rightarrow> string \<Rightarrow> BuildInfo \<Rightarrow> string" where
  "commitGrammar environ sha buildInfo =
     ''commit:'' @ sha @ '';target:'' @ Target buildInfo @
     '';build_args:'' @ buildArgsSection environ (Args buildInfo) @
     '';secrets:'' @ secretsSection (Secrets buildInfo) @
     '';context:'' @ Context buildInfo @
     '';dockerfile:'' @ Dockerfile buildInfo @
     '';image:'' @ Image buildInfo @ '';''"

text \<open>
  Modelled from the spec: \<open>hashProjectCommit\<close> of the missing hasher (section 4.1, steps
  1 and 4). The commit id is the repository's, or the empty string when the lookup fails;
  the fingerprint is the digest of the grammar string. The digest (SHA-256 in hexadecimal,
  from Go's standard library) is a parameter.
\<close>

definition hashProjectCommit ::
  "(string \<Rightarrow> string) \<Rightarrow> (error + string) \<Rightarrow> (string \<times> string) list \<Rightarrow> BuildInfo \<Rightarrow> string" where
  "hashProjectCommit sha256hex getSHA environ buildInfo =
     (let sha = (case getSHA of Inl err \<Rightarrow> [] | Inr commit \<Rightarrow> commit)
      in sha256hex (commitGrammar environ sha buildInfo))"

text \<open>
  Modelled from the spec: the standard tagger (\<open>newImageTagger\<close>), whose file is
  missing. Section 4.2: an explicit image is returned as it is, and otherwise the reference
  is \<open>namespace/plan-unit:okteto\<close>. That the plan is not a compose plan is decided by
  the caller, \<open>getBuildInfoWithoutVolumeMounts\<close>, which clears the image of a compose
  plan before the tagger sees it.
\<close>

definition standardReference :: "string \<Rightarrow> string \<Rightarrow> string \<Rightarrow> BuildInfo \<Rightarrow> string \<Rightarrow> string" where
  "standardReference namespace manifestName svcName b buildHash =
     (if Image b \<noteq> [] then Image b
      else namespace @ ''/'' @ manifestName @ ''-'' @ svcName @ '':okteto'')"

text \<open>
  Modelled from the spec: the tagger for volume mounts (\<open>newImageWithVolumesTagger\<close>),
  whose file is missing. Section 4.2: the image is named as by the standard tagger, with
  the tag \<open>okteto-with-volume-mounts\<close>.
\<close>

definition withVolumesReference :: "string \<Rightarrow> string \<Rightarrow> string \<Rightarrow> BuildInfo \<Rightarrow> string \<Rightarrow> string" where
  "withVolumesReference namespace manifestName svcName b buildHash =
     namespace @ ''/'' @ manifestName @ ''-'' @ svcName @ '':okteto-with-volume-mounts''"

section \<open>Observing a run\<close>

text \<open>
  What the properties of the scheduler are stated with. \<open>dependsOn\<close> reads the
  \<open>DependsOn\<close> list of a unit of the plan. A unit is \<open>blocked\<close> in a state when the
  loop body leaves it alone: one of the two \<open>continue\<close> guards holds. \<open>afterRounds n\<close>
  is the state at the head of the outer loop after \<open>n\<close> rounds, when none of them has made
  \<open>Build\<close> return.
\<close>

definition dependsOn :: "Manifest \<Rightarrow> string \<Rightarrow> string list" where
  "dependsOn m svc = (case map_of (BuildSection m) svc of None \<Rightarrow> [] | Some b \<Rightarrow> DependsOn b)"

definition blocked :: "string \<Rightarrow> build_state \<Rightarrow> bool" where
  "blocked svc st =
     (skipServiceBuild svc (builtImagesControl st) \<or>
      \<not> areAllServicesBuilt (dependsOn (manifest st) svc) (builtImagesControl st))"

fun afterRounds ::
  "collaborators \<Rightarrow> BuildOptions \<Rightarrow> string list \<Rightarrow> nat \<Rightarrow> build_state \<Rightarrow> build_state option" where
  "afterRounds c options toBuildSvcs 0 st = Some st"
| "afterRounds c options toBuildSvcs (Suc n) st =
     (if length (builtImagesControl st) \<noteq> length toBuildSvcs then
        (case buildRound c options toBuildSvcs st of
           (Some err, st1) \<Rightarrow> None
         | (None, st1) \<Rightarrow> afterRounds c options toBuildSvcs n st1)
      else None)"

text \<open>
  \<open>exports\<close> lists the units whose variables a trace exports, in order: the units
  recorded as built. \<open>depsOrdered deps built tr\<close> reads the trace from the left, with the
  units built before it in \<open>built\<close>: at every \<open>Attempt\<close> of a unit, all the units it
  depends on have been exported already.
\<close>

fun exports :: "event list \<Rightarrow> string list" where
  "exports [] = []"
| "exports (SetServiceEnvVars svc img # tr) = svc # exports tr"
| "exports (e # tr) = exports tr"

fun depsOrdered :: "(string \<Rightarrow> string list) \<Rightarrow> string list \<Rightarrow> event list \<Rightarrow> bool" where
  "depsOrdered deps built [] = True"
| "depsOrdered deps built (Attempt svc # tr) =
     (list_all (\<lambda>dep. dep \<in> set built) (deps svc) \<and> depsOrdered deps built tr)"
| "depsOrdered deps built (SetServiceEnvVars svc img # tr) = depsOrdered deps (svc # built) tr"
| "depsOrdered deps built (e # tr) = depsOrdered deps built tr"

text \<open>\<open>cacheQueried svc tr\<close>: the trace holds a cache lookup for the unit.\<close>

definition cacheQueried :: "string \<Rightarrow> event list \<Rightarrow> bool" where
  "cacheQueried svc tr =
     list_ex (\<lambda>e. case e of CheckIfBuildHashIsBuilt manifestName s buildHash \<Rightarrow> s = svc
                           | _ \<Rightarrow> False) tr"

definition isChdir :: "event \<Rightarrow> bool" where
  "isChdir e = (case e of Chdir dir \<Rightarrow> True | _ \<Rightarrow> False)"

text \<open>
  The shape of what one pass of the loop body adds to the trace. \<open>isCall\<close> holds of the
  calls \<open>buildServiceImages\<close> makes; \<open>okMid\<close> of the events between the \<open>Attempt\<close>
  of a unit and the export of its variables; \<open>stepOutcome\<close> describes the two ways an
  attempt ends: the unit is exported and marked built, or \<open>Build\<close> returns an error,
  which is the wrapped error of the unit when \<open>buildServiceImages\<close> was called.
  \<open>schedInv\<close> is the invariant of the loop that the proofs carry.
\<close>

definition isCall :: "event \<Rightarrow> bool" where
  "isCall e = (case e of CreateDockerfileWithVolumeMounts fromImage volumes \<Rightarrow> True
                       | V1Build opts \<Rightarrow> True
                       | GetImageTagWithDigest tag \<Rightarrow> True
                       | _ \<Rightarrow> False)"

definition okMid :: "string \<Rightarrow> bool \<Rightarrow> event \<Rightarrow> bool" where
  "okMid svc cacheOn e =
     (case e of Chdir dir \<Rightarrow> False
              | Attempt s \<Rightarrow> False
              | SetServiceEnvVars s img \<Rightarrow> False
              | BuildServiceImages s \<Rightarrow> s = svc
              | CheckIfBuildHashIsBuilt manifestName s buildHash \<Rightarrow> s = svc \<and> cacheOn
              | _ \<Rightarrow> True)"

definition stepOutcome ::
  "string \<Rightarrow> bool \<Rightarrow> build_state \<Rightarrow> error option \<Rightarrow> build_state \<Rightarrow> event list \<Rightarrow> bool" where
  "stepOutcome svc cacheOn st res st' mid =
     (list_all (okMid svc cacheOn) mid \<and> (cacheQueried svc mid \<longleftrightarrow> cacheOn) \<and>
      ((res = None \<and> (\<exists>img. trace st' = trace st @ Attempt svc # mid @ [SetServiceEnvVars svc img]) \<and>
        builtImagesControl st' = AList.update svc True (builtImagesControl st)) \<or>
       (\<exists>e. res = Some e \<and> trace st' = trace st @ Attempt svc # mid \<and>
            builtImagesControl st' = builtImagesControl st \<and>
            (BuildServiceImages svc \<in> set mid \<longrightarrow> (\<exists>err. e = ErrBuildingService svc err)))))"

definition schedInv :: "(string \<Rightarrow> string list) \<Rightarrow> bool \<Rightarrow> error option \<Rightarrow> build_state \<Rightarrow> bool" where
  "schedInv deps cacheOn res st =
     (dependsOn (manifest st) = deps \<and>
      depsOrdered deps [] (trace st) \<and>
      (\<forall>svc. cacheQueried svc (trace st) \<longleftrightarrow> cacheOn \<and> Attempt svc \<in> set (trace st)) \<and>
      (\<forall>svc. BuildServiceImages svc \<in> set (trace st) \<and> svc \<notin> set (exports (trace st)) \<longrightarrow>
             (\<exists>err. res = Some (ErrBuildingService svc err))) \<and>
      (res = None \<longrightarrow> fst ` set (builtImagesControl st) = set (exports (trace st)) \<and>
                       (\<forall>kv \<in> set (builtImagesControl st). snd kv)))"

text \<open>
  The cache check of a unit, seen from outside the loop body. \<open>cacheLookup\<close> is the
  answer of the image checker to the lookup of lines 220 to 223; \<open>cacheHit\<close> says that
  the lookup is made and finds the image, so that the build of the unit is skipped;
  \<open>afterLookup\<close> is the state in which the body leaves lines 217 to 247 behind: the
  unit is attempted and, when the cache is enabled, looked up. \<open>beforeUnit\<close> is the state
  in which round \<open>n + 1\<close> of the loop comes to a unit, the units \<open>pre\<close> listed before
  it having been passed without a return.
\<close>

definition cacheLookup :: "collaborators \<Rightarrow> string \<Rightarrow> BuildInfo \<Rightarrow> build_state \<Rightarrow> string \<times> bool" where
  "cacheLookup c svc info st =
     checkIfBuildHashIsBuilt c (trace (emit (Attempt svc) st)) (serviceHasVolumesToInclude info)
       (Name (manifest st)) svc (hashService c info)"

definition cacheHit ::
  "collaborators \<Rightarrow> BuildOptions \<Rightarrow> string \<Rightarrow> BuildInfo \<Rightarrow> build_state \<Rightarrow> bool" where
  "cacheHit c options svc info st = (cacheEnabled c options \<and> snd (cacheLookup c svc info st))"

definition afterLookup ::
  "collaborators \<Rightarrow> BuildOptions \<Rightarrow> string \<Rightarrow> BuildInfo \<Rightarrow> build_state \<Rightarrow> build_state" where
  "afterLookup c options svc info st =
     (if cacheEnabled c options
      then emit (CheckIfBuildHashIsBuilt (Name (manifest st)) svc (hashService c info))
             (emit (Attempt svc) st)
      else emit (Attempt svc) st)"

definition beforeUnit ::
  "collaborators \<Rightarrow> BuildOptions \<Rightarrow> string list \<Rightarrow> nat \<Rightarrow> string list \<Rightarrow> build_state \<Rightarrow>
   build_state option" where
  "beforeUnit c options toBuildSvcs n pre st0 =
     (case afterRounds c options toBuildSvcs n st0 of
        None \<Rightarrow> None
      | Some st \<Rightarrow>
          if length (builtImagesControl st) \<noteq> length toBuildSvcs then
            (case buildRound c options pre st of
               (Some err, st1) \<Rightarrow> None
             | (None, st1) \<Rightarrow> Some st1)
          else None)"

section \<open>Collaborators of the tests\<close>

text \<open>
  The fakes of build\_test.go: a registry that knows an image once a build has pushed its
  tag, a builder that always succeeds, a configuration with smart builds off, and an okteto
  context with namespace \<open>test\<close>, whose images go under \<open>okteto.dev\<close>.
\<close>

definition pushed :: "event list \<Rightarrow> string \<Rightarrow> bool" where
  "pushed h tag = list_ex (\<lambda>e. case e of V1Build opts \<Rightarrow> Tag opts = tag | _ \<Rightarrow> False) h"

definition emptyBuildInfo :: BuildInfo where
  "emptyBuildInfo =
     \<lparr>Context = [], Dockerfile = [], Image = [], Target = [], Args = [], Secrets = [],
      VolumesToInclude = [], DependsOn = []\<rparr>"

definition emptyOptions :: BuildOptions where
  "emptyOptions =
     \<lparr>CommandArgs = [], File = [], Tag = [], DevTag = [], optTarget = [],
      CacheFrom = None, optSecrets = None, NoCache = False, EnableStages = False\<rparr>"

definition fakeCollaborators :: collaborators where
  "fakeCollaborators =
     \<lparr>OktetoDeployRemote = False,
      ctxIsOkteto = True,
      ctxNamespace = ''test'',
      IsCleanProject = False,
      IsSmartBuildsEnabled = False,
      GetWorkdirFromManifestPath = (\<lambda>path. path),
      GetManifestPathFromWorkdir = (\<lambda>path workdir. path),
      osChdir = (\<lambda>dir. None),
      osGetwd = Inr ''/'',
      K8sClientProvide = None,
      InferName = (\<lambda>wd ns file. ''test''),
      GetSvcsToBuildFromList = (\<lambda>buildSection toBuild. toBuild),
      hashService = (\<lambda>b. ''hash''),
      imageTagger = standardReference ''okteto.dev'',
      imageWithVolumesTagger = withVolumesReference ''okteto.dev'',
      checkIfBuildHashIsBuilt = (\<lambda>h withVolumes manifestName svcName buildHash. ([], False)),
      IsGlobalRegistry = (\<lambda>img. False),
      IsOktetoRegistry = (\<lambda>img. False),
      cloneGlobalImageToDev = (\<lambda>h img tag. Inr []),
      addBuildArgs = (\<lambda>h b. Inr b),
      OptsFromBuildInfo = (\<lambda>manifestName svcName b options. options\<lparr>Tag := Image b\<rparr>),
      createDockerfileWithVolumeMounts =
        (\<lambda>h fromImage volumes. Inr (emptyBuildInfo\<lparr>VolumesToInclude := volumes\<rparr>)),
      v1Build = (\<lambda>h opts. None),
      getImageTagWithDigest = (\<lambda>h tag. if pushed h tag then Inr tag else Inl ErrNotFound),
      osStat = (\<lambda>path. if path = ''./missing-folder'' then StatNotExist else StatOk),
      expandEnvVars = (\<lambda>h. None)\<rparr>"

text \<open>A manifest with one unit, and the state a test starts \<open>buildServiceImages\<close> from.\<close>

definition manifestOf :: "(string \<times> BuildInfo) list \<Rightarrow> Manifest" where
  "manifestOf buildSection =
     \<lparr>Name = ''test'', Type = OktetoManifestType, BuildSection = buildSection,
      DeployComposeSection = False\<rparr>"

definition startState :: "(string \<times> BuildInfo) list \<Rightarrow> build_state" where
  "startState buildSection =
     \<lparr>manifest = manifestOf buildSection, builtImagesControl = [], trace = []\<rparr>"

text \<open>The build information of the first case of \<open>Test_getBuildHashFromCommit\<close>.\<close>

definition hashTestInfo :: BuildInfo where
  "hashTestInfo =
     \<lparr>Context = ''context'', Dockerfile = ''dockerfile'', Image = ''image'', Target = ''target'',
      Args = [\<lparr>argName = ''foo'', argValue = ''bar''\<rparr>, \<lparr>argName = ''key'', argValue = ''value''\<rparr>],
      Secrets = [(''secret'', ''secret'')],
      VolumesToInclude = [], DependsOn = []\<rparr>"

text \<open>The two mounts of \<open>Test_getAccessibleVolumeMounts\<close>.\<close>

definition volumeTestInfo :: BuildInfo where
  "volumeTestInfo =
     emptyBuildInfo\<lparr>Image := ''nginx'', VolumesToInclude :=
       [\<lparr>LocalPath = ''./existing-folder'', RemotePath = ''/data/logs''\<rparr>,
        \<lparr>LocalPath = ''./missing-folder'', RemotePath = ''/data/logs''\<rparr>]\<rparr>"

text \<open>
  The units of \<open>TestBuildWithoutVolumeMountWithImage\<close>,
  \<open>TestBuildWithoutVolumeMountWithoutImage\<close> and \<open>TestTwoStepsBuild\<close>.
\<close>

definition unitWithImage :: BuildInfo where
  "unitWithImage =
     emptyBuildInfo\<lparr>Context := ''dir'', Dockerfile := ''dir/Dockerfile'', Image := ''okteto/test''\<rparr>"

definition unitWithoutImage :: BuildInfo where
  "unitWithoutImage = emptyBuildInfo\<lparr>Context := ''dir'', Dockerfile := ''dir/Dockerfile''\<rparr>"

definition unitWithVolumes :: BuildInfo where
  "unitWithVolumes =
     emptyBuildInfo\<lparr>Context := ''dir'', Dockerfile := ''dir/Dockerfile'',
       VolumesToInclude := [\<lparr>LocalPath = ''dir'', RemotePath = ''test''\<rparr>]\<rparr>"

text \<open>
  Plans for the scheduler: a cycle, a dependency on a name that is not a unit of the plan,
  a cycle beside a unit that can be built, and the plan of \<open>TestBuildWithDependsOn\<close>
  with the dependent unit listed first.
\<close>

definition cyclicPlan :: Manifest where
  "cyclicPlan = manifestOf
     [(''a'', unitWithImage\<lparr>DependsOn := [''b'']\<rparr>), (''b'', unitWithImage\<lparr>DependsOn := [''a'']\<rparr>)]"

definition danglingPlan :: Manifest where
  "danglingPlan = manifestOf [(''a'', unitWithImage\<lparr>DependsOn := [''ghost'']\<rparr>)]"

definition partlyCyclicPlan :: Manifest where
  "partlyCyclicPlan = manifestOf
     [(''a'', unitWithImage\<lparr>DependsOn := [''b'']\<rparr>), (''b'', unitWithImage\<lparr>DependsOn := [''a'']\<rparr>),
      (''c'', unitWithImage)]"

definition afterFirstRound :: build_state where
  "afterFirstRound =
     \<lparr>manifest = partlyCyclicPlan,
      builtImagesControl = [(''c'', True)],
      trace = [Attempt ''c'', BuildServiceImages ''c'',
               V1Build (emptyOptions\<lparr>Tag := ''okteto/test''\<rparr>),
               GetImageTagWithDigest ''okteto/test'',
               SetServiceEnvVars ''c'' ''okteto/test'']\<rparr>"

definition unitA :: BuildInfo where
  "unitA = unitWithImage\<lparr>Image := ''okteto/a:test''\<rparr>"

definition unitB :: BuildInfo where
  "unitB = unitWithImage\<lparr>Image := ''okteto/b:test'', DependsOn := [''a'']\<rparr>"

definition dependentPlan :: Manifest where
  "dependentPlan = manifestOf [(''b'', unitB), (''a'', unitA)]"

text \<open>
  The calls of building unit \<open>a\<close> and, after its \<open>Attempt\<close>, unit \<open>b\<close> with the
  fakes; a builder that fails on the image of unit \<open>a\<close>, and a configuration with smart
  builds on.
\<close>

definition firstBuild :: "event list" where
  "firstBuild =
     [Attempt ''a'', BuildServiceImages ''a'',
      V1Build (emptyOptions\<lparr>Tag := ''okteto/a:test''\<rparr>),
      GetImageTagWithDigest ''okteto/a:test'',
      SetServiceEnvVars ''a'' ''okteto/a:test'']"

definition secondBuild :: "event list" where
  "secondBuild =
     [BuildServiceImages ''b'',
      V1Build (emptyOptions\<lparr>Tag := ''okteto/b:test''\<rparr>),
      GetImageTagWithDigest ''okteto/b:test'',
      SetServiceEnvVars ''b'' ''okteto/b:test'']"

definition failingCollaborators :: collaborators where
  "failingCollaborators = fakeCollaborators
     \<lparr>v1Build := (\<lambda>h opts. if Tag opts = ''okteto/a:test''
                             then Some (CollaboratorError ''build failed'') else None)\<rparr>"

definition failedState :: build_state where
  "failedState =
     \<lparr>manifest = dependentPlan,
      builtImagesControl = [],
      trace = [Attempt ''a'', BuildServiceImages ''a'',
               V1Build (emptyOptions\<lparr>Tag := ''okteto/a:test''\<rparr>)]\<rparr>"

definition smartCollaborators :: collaborators where
  "smartCollaborators = fakeCollaborators\<lparr>IsCleanProject := True, IsSmartBuildsEnabled := True\<rparr>"

text \<open>
  A context that is not okteto; a cache that holds the image of every unit under
  \<open>okteto.dev\<close>; a cache that holds them in the global registry, from which the image of
  unit \<open>a\<close> cannot be cloned, with the state \<open>Build\<close> stops in; and the plan of
  \<open>TestBuildWithDependsOn\<close> with no image for unit \<open>a\<close>.
\<close>

definition vanillaCollaborators :: collaborators where
  "vanillaCollaborators = fakeCollaborators\<lparr>ctxIsOkteto := False\<rparr>"


definition cloneFailingCollaborators :: collaborators where
  "cloneFailingCollaborators = smartCollaborators
     \<lparr>checkIfBuildHashIsBuilt :=
        (\<lambda>h withVolumes manifestName svcName buildHash. (''okteto.global/'' @ svcName, True)),
      IsGlobalRegistry := (\<lambda>img. True),
      cloneGlobalImageToDev :=
        (\<lambda>h img tag. if img = ''okteto.global/a'' then Inl (CollaboratorError ''clone failed'')
                       else Inr img)\<rparr>"

definition cloneFailedState :: build_state where
  "cloneFailedState =
     \<lparr>manifest = dependentPlan,
      builtImagesControl = [],
      trace = [Attempt ''a'', CheckIfBuildHashIsBuilt ''test'' ''a'' ''hash'',
               CloneGlobalImageToDev ''okteto.global/a'' ''hash'']\<rparr>"

definition imagelessPlan :: Manifest where
  "imagelessPlan = manifestOf [(''b'', unitB), (''a'', unitA\<lparr>Image := []\<rparr>)]"

text \<open>
  A file system in which \<open>./plain-file\<close> is a plain file, so that the path
  \<open>./plain-file/child\<close> leads nowhere and \<open>os.Stat\<close> fails on it with \<open>ENOTDIR\<close>;
  a builder that fails on every build; and a unit that asks for the path as a mount.
\<close>

definition notDirCollaborators :: collaborators where
  "notDirCollaborators = fakeCollaborators
     \<lparr>osStat := (\<lambda>path. if path = ''./plain-file/child'' then StatNotDir
                         else if path = ''./missing-folder'' then StatNotExist else StatOk)\<rparr>"

definition brokenBuilderCollaborators :: collaborators where
  "brokenBuilderCollaborators = fakeCollaborators
     \<lparr>v1Build := (\<lambda>h opts. Some (CollaboratorError ''build failed''))\<rparr>"

definition notDirInfo :: BuildInfo where
  "notDirInfo =
     emptyBuildInfo\<lparr>Image := ''nginx'', VolumesToInclude :=
       [\<lparr>LocalPath = ''./existing-folder'', RemotePath = ''/data/logs''\<rparr>,
        \<lparr>LocalPath = ''./plain-file/child'', RemotePath = ''/data/child''\<rparr>]\<rparr>"

section \<open>Properties of \<open>buildServiceImages\<close>\<close>


lemma accessibleVolumeMounts_loop_filter:
  "accessibleVolumeMounts_loop c volumes acc =
     acc @ filter (\<lambda>volume. osStat c (LocalPath volume) \<noteq> StatNotExist) volumes"
  by (induction volumes arbitrary: acc) (simp_all add: os_IsNotExist_def)

text \<open>
  Claim C8. A unit that requests host-volume mounts, in a context that is not an okteto
  context: \<open>buildServiceImages\<close> returns the user error with its hint
  (\<open>Please connect to a okteto context and try again\<close>) and the state it was called in,
  so no build was run and no collaborator was called. Nothing is assumed about the
  Dockerfile of the unit.
\<close>

theorem buildServiceImages_volumes_outside_okteto:
  assumes "map_of (BuildSection (manifest st)) svcName = Some buildSvcInfo"
    and "VolumesToInclude buildSvcInfo \<noteq> []"
    and "\<not> ctxIsOkteto c"
  shows "buildServiceImages c svcName options st =
           (Inl (UserError ''Build with volume mounts is not supported on vanilla contexts''
                           ''Please connect to a okteto context and try again''), st)"
  using assms by (simp add: buildServiceImages_def serviceHasVolumesToInclude_def)

theorem buildServiceImages_volumes_outside_okteto_witness:
  "buildServiceImages (fakeCollaborators\<lparr>ctxIsOkteto := False\<rparr>) ''test-2'' emptyOptions
     (startState [(''test-2'', volumeTestInfo\<lparr>Dockerfile := ''Dockerfile''\<rparr>)]) =
   (Inl (UserError ''Build with volume mounts is not supported on vanilla contexts''
                   ''Please connect to a okteto context and try again''),
    startState [(''test-2'', volumeTestInfo\<lparr>Dockerfile := ''Dockerfile''\<rparr>)])"
  by (rule buildServiceImages_volumes_outside_okteto
        [where buildSvcInfo = "volumeTestInfo\<lparr>Dockerfile := ''Dockerfile''\<rparr>"])
     (simp_all add: startState_def manifestOf_def volumeTestInfo_def fakeCollaborators_def)

section \<open>Volume mounts\<close>

text \<open>
  Claim C7, as stated, fails. \<open>getAccessibleVolumeMounts\<close> drops a mount only when
  \<open>os.IsNotExist\<close> holds of the error of \<open>os.Stat\<close>. Where \<open>./plain-file\<close> is a plain
  file, nothing is at \<open>./plain-file/child\<close>, but the error of \<open>os.Stat\<close> is
  \<open>ENOTDIR\<close>: the mount is kept, and the second stage receives it and builds with it. The
  mounts forwarded are not exactly those whose local path exists.
\<close>

theorem getAccessibleVolumeMounts_keeps_absent_path:
  "osStat notDirCollaborators ''./plain-file/child'' = StatNotDir \<and>
   getAccessibleVolumeMounts notDirCollaborators notDirInfo =
     [\<lparr>LocalPath = ''./existing-folder'', RemotePath = ''/data/logs''\<rparr>,
      \<lparr>LocalPath = ''./plain-file/child'', RemotePath = ''/data/child''\<rparr>] \<and>
   addVolumeMounts notDirCollaborators ''test'' emptyOptions (startState [(''test'', notDirInfo)]) =
     (Inr ''okteto.dev/test-test:okteto-with-volume-mounts'',
      \<lparr>manifest = manifestOf [(''test'', notDirInfo)],
       builtImagesControl = [],
       trace = [CreateDockerfileWithVolumeMounts ''nginx''
                  [\<lparr>LocalPath = ''./existing-folder'', RemotePath = ''/data/logs''\<rparr>,
                   \<lparr>LocalPath = ''./plain-file/child'', RemotePath = ''/data/child''\<rparr>],
                V1Build (emptyOptions\<lparr>Tag := ''okteto.dev/test-test:okteto-with-volume-mounts''\<rparr>),
                GetImageTagWithDigest ''okteto.dev/test-test:okteto-with-volume-mounts'']\<rparr>)"
  by code_simp

text \<open>
  Claim C7, amended. Of the requested mounts, \<open>getAccessibleVolumeMounts\<close> keeps, in their
  order, exactly those whose local path \<open>os.Stat\<close> does not report as not existing; a
  mount that is dropped is no error. In \<open>addVolumeMounts\<close>, the second stage, the list
  kept is what \<open>build.CreateDockerfileWithVolumeMounts\<close> receives. When that call, the
  build of the options made from its result and the digest lookup of their tag succeed,
  \<open>addVolumeMounts\<close> returns the reference with its digest, having made exactly these
  three calls; when one of them fails, the calls stop there and its error is returned (the
  error of the lookup formatted with the tag of the options). For a unit with mounts and no
  Dockerfile, in an okteto context, \<open>buildServiceImages\<close> is this second stage.
\<close>

theorem addVolumeMounts_forwards_unless_missing:
  assumes look: "map_of (BuildSection (manifest st)) svcName = Some buildInfo"
    and kept: "kept = getAccessibleVolumeMounts c buildInfo"
    and base: "fromImage = (if Tag options \<noteq> [] then Tag options else Image buildInfo)"
    and opts: "buildOptions =
      (OptsFromBuildInfo c (Name (manifest st)) svcName svcBuild options)
        \<lparr>Tag := imageWithVolumesTagger c (Name (manifest st)) svcName (buildInfo\<lparr>Image := []\<rparr>)
                  (hashService c (buildInfo\<lparr>Image := []\<rparr>))\<rparr>"
  shows "kept = filter (\<lambda>volume. osStat c (LocalPath volume) \<noteq> StatNotExist)
                  (VolumesToInclude buildInfo) \<and>
    (createDockerfileWithVolumeMounts c (trace st) fromImage kept = Inl err \<longrightarrow>
       addVolumeMounts c svcName options st =
         (Inl err, st\<lparr>trace := trace st @ [CreateDockerfileWithVolumeMounts fromImage kept]\<rparr>)) \<and>
    (createDockerfileWithVolumeMounts c (trace st) fromImage kept = Inr svcBuild \<and>
     v1Build c (trace st @ [CreateDockerfileWithVolumeMounts fromImage kept]) buildOptions = Some err \<longrightarrow>
       addVolumeMounts c svcName options st =
         (Inl err, st\<lparr>trace := trace st @ [CreateDockerfileWithVolumeMounts fromImage kept,
                                           V1Build buildOptions]\<rparr>)) \<and>
    (createDockerfileWithVolumeMounts c (trace st) fromImage kept = Inr svcBuild \<and>
     v1Build c (trace st @ [CreateDockerfileWithVolumeMounts fromImage kept]) buildOptions = None \<and>
     getImageTagWithDigest c
       (trace st @ [CreateDockerfileWithVolumeMounts fromImage kept, V1Build buildOptions])
       (Tag buildOptions) = Inl err \<longrightarrow>
       addVolumeMounts c svcName options st =
         (Inl (ErrAccessingImage (Tag options) err),
          st\<lparr>trace := trace st @ [CreateDockerfileWithVolumeMounts fromImage kept,
                                   V1Build buildOptions,
                                   GetImageTagWithDigest (Tag buildOptions)]\<rparr>)) \<and>
    (createDockerfileWithVolumeMounts c (trace st) fromImage kept = Inr svcBuild \<and>
     v1Build c (trace st @ [CreateDockerfileWithVolumeMounts fromImage kept]) buildOptions = None \<and>
     getImageTagWithDigest c
       (trace st @ [CreateDockerfileWithVolumeMounts fromImage kept, V1Build buildOptions])
       (Tag buildOptions) = Inr imageTagWithDigest \<longrightarrow>
       addVolumeMounts c svcName options st =
         (Inr imageTagWithDigest,
          st\<lparr>trace := trace st @ [CreateDockerfileWithVolumeMounts fromImage kept,
                                   V1Build buildOptions,
                                   GetImageTagWithDigest (Tag buildOptions)]\<rparr>)) \<and>
    (ctxIsOkteto c \<and> Dockerfile buildInfo = [] \<and> VolumesToInclude buildInfo \<noteq> [] \<longrightarrow>
       buildServiceImages c svcName options st = addVolumeMounts c svcName options st)"
proof -
  have vols: "VolumesToInclude (getBuildInfoWithVolumeMounts c buildInfo isStack) =
      getAccessibleVolumeMounts c buildInfo" for isStack
    by (simp add: getBuildInfoWithVolumeMounts_def Let_def)
  have filtered: "kept = filter (\<lambda>volume. osStat c (LocalPath volume) \<noteq> StatNotExist)
                  (VolumesToInclude buildInfo)"
    by (simp add: kept getAccessibleVolumeMounts_def accessibleVolumeMounts_loop_filter)
  have refused: "addVolumeMounts c svcName options st =
         (Inl err, st\<lparr>trace := trace st @ [CreateDockerfileWithVolumeMounts fromImage kept]\<rparr>)"
    if "createDockerfileWithVolumeMounts c (trace st) fromImage kept = Inl err"
    using look that unfolding kept base
    by (cases "Tag options = []") (simp_all add: addVolumeMounts_def vols Let_def emit_def)
  have failed: "addVolumeMounts c svcName options st =
         (Inl err, st\<lparr>trace := trace st @ [CreateDockerfileWithVolumeMounts fromImage kept,
                                           V1Build buildOptions]\<rparr>)"
    if "createDockerfileWithVolumeMounts c (trace st) fromImage kept = Inr svcBuild"
      and "v1Build c (trace st @ [CreateDockerfileWithVolumeMounts fromImage kept]) buildOptions = Some err"
    using look that unfolding kept base opts
    by (cases "Tag options = []") (simp_all add: addVolumeMounts_def vols Let_def emit_def)
  have lost: "addVolumeMounts c svcName options st =
         (Inl (ErrAccessingImage (Tag options) err),
          st\<lparr>trace := trace st @ [CreateDockerfileWithVolumeMounts fromImage kept,
                                   V1Build buildOptions,
                                   GetImageTagWithDigest (Tag buildOptions)]\<rparr>)"
    if "createDockerfileWithVolumeMounts c (trace st) fromImage kept = Inr svcBuild"
      and "v1Build c (trace st @ [CreateDockerfileWithVolumeMounts fromImage kept]) buildOptions = None"
      and "getImageTagWithDigest c
       (trace st @ [CreateDockerfileWithVolumeMounts fromImage kept, V1Build buildOptions])
       (Tag buildOptions) = Inl err"
    using look that unfolding kept base opts
    by (cases "Tag options = []") (simp_all add: addVolumeMounts_def vols Let_def emit_def)
  have built: "addVolumeMounts c svcName options st =
         (Inr imageTagWithDigest,
          st\<lparr>trace := trace st @ [CreateDockerfileWithVolumeMounts fromImage kept,
                                   V1Build buildOptions,
                                   GetImageTagWithDigest (Tag buildOptions)]\<rparr>)"
    if "createDockerfileWithVolumeMounts c (trace st) fromImage kept = Inr svcBuild"
      and "v1Build c (trace st @ [CreateDockerfileWithVolumeMounts fromImage kept]) buildOptions = None"
      and "getImageTagWithDigest c
       (trace st @ [CreateDockerfileWithVolumeMounts fromImage kept, V1Build buildOptions])
       (Tag buildOptions) = Inr imageTagWithDigest"
    using look that unfolding kept base opts
    by (cases "Tag options = []") (simp_all add: addVolumeMounts_def vols Let_def emit_def)
  have stage: "buildServiceImages c svcName options st = addVolumeMounts c svcName options st"
    if "ctxIsOkteto c \<and> Dockerfile buildInfo = [] \<and> VolumesToInclude buildInfo \<noteq> []"
    using look that
    by (simp add: buildServiceImages_def serviceHasDockerfile_def serviceHasVolumesToInclude_def)
  from filtered refused failed lost built stage show ?thesis
    by blast
qed

theorem addVolumeMounts_forwards_unless_missing_witness:
  "map_of (BuildSection (manifest (startState [(''test'', volumeTestInfo)]))) ''test'' =
     Some volumeTestInfo \<and>
   osStat fakeCollaborators ''./missing-folder'' = StatNotExist \<and>
   getAccessibleVolumeMounts fakeCollaborators volumeTestInfo =
     [\<lparr>LocalPath = ''./existing-folder'', RemotePath = ''/data/logs''\<rparr>] \<and>
   addVolumeMounts fakeCollaborators ''test'' emptyOptions (startState [(''test'', volumeTestInfo)]) =
     (Inr ''okteto.dev/test-test:okteto-with-volume-mounts'',
      (startState [(''test'', volumeTestInfo)])
        \<lparr>trace := [CreateDockerfileWithVolumeMounts ''nginx''
                     [\<lparr>LocalPath = ''./existing-folder'', RemotePath = ''/data/logs''\<rparr>],
                   V1Build (emptyOptions\<lparr>Tag := ''okteto.dev/test-test:okteto-with-volume-mounts''\<rparr>),
                   GetImageTagWithDigest ''okteto.dev/test-test:okteto-with-volume-mounts'']\<rparr>) \<and>
   buildServiceImages fakeCollaborators ''test'' emptyOptions (startState [(''test'', volumeTestInfo)]) =
     addVolumeMounts fakeCollaborators ''test'' emptyOptions (startState [(''test'', volumeTestInfo)]) \<and>
   addVolumeMounts brokenBuilderCollaborators ''test'' emptyOptions
       (startState [(''test'', volumeTestInfo)]) =
     (Inl (CollaboratorError ''build failed''),
      (startState [(''test'', volumeTestInfo)])
        \<lparr>trace := [CreateDockerfileWithVolumeMounts ''nginx''
                     [\<lparr>LocalPath = ''./existing-folder'', RemotePath = ''/data/logs''\<rparr>],
                   V1Build (emptyOptions\<lparr>Tag := ''okteto.dev/test-test:okteto-with-volume-mounts''\<rparr>)]\<rparr>)"
proof -
  let ?st = "startState [(''test'', volumeTestInfo)]"
  let ?kept = "[\<lparr>LocalPath = ''./existing-folder'', RemotePath = ''/data/logs''\<rparr>]"
  let ?tag = "''okteto.dev/test-test:okteto-with-volume-mounts''"
  let ?opts = "emptyOptions\<lparr>Tag := ?tag\<rparr>"
  let ?svcBuild = "emptyBuildInfo\<lparr>VolumesToInclude := ?kept\<rparr>"
  let ?failure = "CollaboratorError ''build failed''"
  have look: "map_of (BuildSection (manifest ?st)) ''test'' = Some volumeTestInfo"
    by (simp add: startState_def manifestOf_def)
  have missing: "osStat fakeCollaborators ''./missing-folder'' = StatNotExist"
    by (simp add: fakeCollaborators_def)
  have kept: "?kept = getAccessibleVolumeMounts fakeCollaborators volumeTestInfo"
    by code_simp
  have keptb: "?kept = getAccessibleVolumeMounts brokenBuilderCollaborators volumeTestInfo"
    by code_simp
  have base: "''nginx'' = (if Tag emptyOptions \<noteq> [] then Tag emptyOptions else Image volumeTestInfo)"
    by (simp add: emptyOptions_def volumeTestInfo_def)
  have opts: "?opts =
      (OptsFromBuildInfo fakeCollaborators (Name (manifest ?st)) ''test'' ?svcBuild emptyOptions)
      \<lparr>Tag := imageWithVolumesTagger fakeCollaborators (Name (manifest ?st)) ''test''
                (volumeTestInfo\<lparr>Image := []\<rparr>)
                (hashService fakeCollaborators (volumeTestInfo\<lparr>Image := []\<rparr>))\<rparr>"
    by code_simp
  have optsb: "?opts =
      (OptsFromBuildInfo brokenBuilderCollaborators (Name (manifest ?st)) ''test'' ?svcBuild emptyOptions)
      \<lparr>Tag := imageWithVolumesTagger brokenBuilderCollaborators (Name (manifest ?st)) ''test''
                (volumeTestInfo\<lparr>Image := []\<rparr>)
                (hashService brokenBuilderCollaborators (volumeTestInfo\<lparr>Image := []\<rparr>))\<rparr>"
    by code_simp
  have create: "createDockerfileWithVolumeMounts fakeCollaborators (trace ?st) ''nginx'' ?kept =
      Inr ?svcBuild"
    by (simp add: fakeCollaborators_def)
  have createb: "createDockerfileWithVolumeMounts brokenBuilderCollaborators (trace ?st) ''nginx'' ?kept =
      Inr ?svcBuild"
    by (simp add: brokenBuilderCollaborators_def fakeCollaborators_def)
  have build: "v1Build fakeCollaborators
      (trace ?st @ [CreateDockerfileWithVolumeMounts ''nginx'' ?kept]) ?opts = None"
    by (simp add: fakeCollaborators_def)
  have buildb: "v1Build brokenBuilderCollaborators
      (trace ?st @ [CreateDockerfileWithVolumeMounts ''nginx'' ?kept]) ?opts = Some ?failure"
    by (simp add: brokenBuilderCollaborators_def)
  have digest: "getImageTagWithDigest fakeCollaborators
      (trace ?st @ [CreateDockerfileWithVolumeMounts ''nginx'' ?kept, V1Build ?opts]) (Tag ?opts) =
      Inr ?tag"
    by code_simp
  have single: "ctxIsOkteto fakeCollaborators \<and> Dockerfile volumeTestInfo = [] \<and>
      VolumesToInclude volumeTestInfo \<noteq> []"
    by (simp add: fakeCollaborators_def volumeTestInfo_def emptyBuildInfo_def)
  have start: "trace ?st = []"
    by (simp add: startState_def)
  note good = addVolumeMounts_forwards_unless_missing
    [OF look kept base opts, where err = ?failure and imageTagWithDigest = ?tag]
  note bad = addVolumeMounts_forwards_unless_missing
    [OF look keptb base optsb, where err = ?failure and imageTagWithDigest = ?tag]
  have run: "addVolumeMounts fakeCollaborators ''test'' emptyOptions ?st =
     (Inr ?tag,
      ?st\<lparr>trace := trace ?st @ [CreateDockerfileWithVolumeMounts ''nginx'' ?kept, V1Build ?opts,
                                 GetImageTagWithDigest (Tag ?opts)]\<rparr>)"
    using good create build digest by blast
  have same: "buildServiceImages fakeCollaborators ''test'' emptyOptions ?st =
     addVolumeMounts fakeCollaborators ''test'' emptyOptions ?st"
    using good single by blast
  have stop: "addVolumeMounts brokenBuilderCollaborators ''test'' emptyOptions ?st =
     (Inl ?failure,
      ?st\<lparr>trace := trace ?st @ [CreateDockerfileWithVolumeMounts ''nginx'' ?kept, V1Build ?opts]\<rparr>)"
    using bad createb buildb by blast
  show ?thesis
    using look missing kept run same stop start by simp
qed

section \<open>The fingerprint and the image references\<close>

text \<open>
  Claim C2. For the build information of the test (commit id \<open>1234567890\<close>, arguments
  \<open>foo=bar\<close> and \<open>key=value\<close> in that order, target \<open>target\<close>, the secret
  \<open>secret\<close>, context, dockerfile and image), the fingerprint is the digest of the grammar
  string of the specification, whatever the environment holds. With the arguments declared
  the other way round and a second secret listed after the first, the arguments keep their
  declared order and the secrets come out sorted by key; with no argument and no secret,
  each section is its label and a semicolon.
\<close>

theorem hashProjectCommit_literal_vector:
  "hashProjectCommit sha256hex (Inr ''1234567890'') environ hashTestInfo =
     sha256hex ''commit:1234567890;target:target;build_args:foo=bar;key=value;secrets:secret=secret;context:context;dockerfile:dockerfile;image:image;'' \<and>
   hashProjectCommit sha256hex (Inr ''1234567890'') environ
       (hashTestInfo\<lparr>Args := [\<lparr>argName = ''key'', argValue = ''value''\<rparr>,
                               \<lparr>argName = ''foo'', argValue = ''bar''\<rparr>],
                     Secrets := [(''secret'', ''secret''), (''other'', ''path'')]\<rparr>) =
     sha256hex ''commit:1234567890;target:target;build_args:key=value;foo=bar;secrets:other=path;secret=secret;context:context;dockerfile:dockerfile;image:image;'' \<and>
   hashProjectCommit sha256hex (Inr ''1234567890'') environ (hashTestInfo\<lparr>Args := [], Secrets := []\<rparr>) =
     sha256hex ''commit:1234567890;target:target;build_args:;secrets:;context:context;dockerfile:dockerfile;image:image;''"
  by (simp add: hashProjectCommit_def commitGrammar_def hashTestInfo_def buildArgsSection_def
      secretsSection_def expandEnv_def)

text \<open>
  Claim C9. The fingerprint is a total function: a failed commit lookup is not an error of
  the fingerprint. For every build information, the string hashed after a failed lookup is
  the string hashed with a commit id \<open>sha\<close>, with the segment \<open>commit:sha;\<close> at its
  front replaced by \<open>commit:;\<close>. For the build information of the test it is the string
  the test expects.
\<close>

theorem hashProjectCommit_without_commit:
  "hashProjectCommit sha256hex (Inl err) environ buildInfo =
     sha256hex (''commit:;'' @
       drop (length (''commit:'' @ sha @ '';'')) (commitGrammar environ sha buildInfo)) \<and>
   hashProjectCommit sha256hex (Inr sha) environ buildInfo =
     sha256hex (''commit:'' @ sha @ '';'' @
       drop (length (''commit:'' @ sha @ '';'')) (commitGrammar environ sha buildInfo)) \<and>
   hashProjectCommit sha256hex (Inl err) environ hashTestInfo =
     sha256hex ''commit:;target:target;build_args:foo=bar;key=value;secrets:secret=secret;context:context;dockerfile:dockerfile;image:image;''"
  by (simp add: hashProjectCommit_def commitGrammar_def hashTestInfo_def buildArgsSection_def
      secretsSection_def expandEnv_def)

text \<open>
  Claim C6. The image reference a unit is built under, as \<open>buildSvcFromDockerfile\<close> and
  \<open>addVolumeMounts\<close> compute it with the taggers of the specification. A unit with the
  image \<open>okteto/test\<close> and no volume mounts, in a plan that is not a compose plan, keeps
  \<open>okteto/test\<close>. A unit with no image and no volume mounts gets
  \<open>namespace/plan-unit:okteto\<close>. A unit with no image and volume mounts gets
  \<open>namespace/plan-unit:okteto-with-volume-mounts\<close> for its second stage.
\<close>

theorem image_reference_resolution:
  "(Image b = ''okteto/test'' \<and> VolumesToInclude b = [] \<longrightarrow>
      standardReference namespace plan unit (getBuildInfoWithoutVolumeMounts c b False) buildHash =
        ''okteto/test'') \<and>
   (Image b = [] \<and> VolumesToInclude b = [] \<longrightarrow>
      standardReference namespace plan unit (getBuildInfoWithoutVolumeMounts c b isStackManifest) buildHash =
        namespace @ ''/'' @ plan @ ''-'' @ unit @ '':okteto'') \<and>
   (Image b = [] \<and> VolumesToInclude b \<noteq> [] \<longrightarrow>
      withVolumesReference namespace plan unit (b\<lparr>Image := []\<rparr>) buildHash =
        namespace @ ''/'' @ plan @ ''-'' @ unit @ '':okteto-with-volume-mounts'')"
  by (simp add: standardReference_def withVolumesReference_def getBuildInfoWithoutVolumeMounts_def)

theorem image_reference_resolution_witness:
  "standardReference ''okteto.dev'' ''test'' ''test''
      (getBuildInfoWithoutVolumeMounts fakeCollaborators unitWithImage False) ''hash'' = ''okteto/test'' \<and>
   standardReference ''okteto.dev'' ''test'' ''test''
      (getBuildInfoWithoutVolumeMounts fakeCollaborators unitWithoutImage False) ''hash'' =
      ''okteto.dev/test-test:okteto'' \<and>
   withVolumesReference ''okteto.dev'' ''test'' ''test'' (unitWithVolumes\<lparr>Image := []\<rparr>) ''hash'' =
      ''okteto.dev/test-test:okteto-with-volume-mounts'' \<and>
   fst (buildServiceImages fakeCollaborators ''test'' emptyOptions (startState [(''test'', unitWithImage)])) =
      Inr ''okteto/test'' \<and>
   fst (buildServiceImages fakeCollaborators ''test'' emptyOptions (startState [(''test'', unitWithoutImage)])) =
      Inr ''okteto.dev/test-test:okteto'' \<and>
   fst (buildServiceImages fakeCollaborators ''test'' emptyOptions (startState [(''test'', unitWithVolumes)])) =
      Inr ''okteto.dev/test-test:okteto-with-volume-mounts''"
proof -
  have h1: "Image unitWithImage = ''okteto/test'' \<and> VolumesToInclude unitWithImage = []"
    by (simp add: unitWithImage_def emptyBuildInfo_def)
  have h2: "Image unitWithoutImage = [] \<and> VolumesToInclude unitWithoutImage = []"
    by (simp add: unitWithoutImage_def emptyBuildInfo_def)
  have h3: "Image unitWithVolumes = [] \<and> VolumesToInclude unitWithVolumes \<noteq> []"
    by (simp add: unitWithVolumes_def emptyBuildInfo_def)
  have r1: "fst (buildServiceImages fakeCollaborators ''test'' emptyOptions
                  (startState [(''test'', unitWithImage)])) = Inr ''okteto/test''"
    by code_simp
  have r2: "fst (buildServiceImages fakeCollaborators ''test'' emptyOptions
                  (startState [(''test'', unitWithoutImage)])) = Inr ''okteto.dev/test-test:okteto''"
    by code_simp
  have r3: "fst (buildServiceImages fakeCollaborators ''test'' emptyOptions
                  (startState [(''test'', unitWithVolumes)])) =
            Inr ''okteto.dev/test-test:okteto-with-volume-mounts''"
    by code_simp
  show ?thesis
    using image_reference_resolution
            [of unitWithImage "''okteto.dev''" "''test''" "''test''" fakeCollaborators "''hash''" False]
          image_reference_resolution
            [of unitWithoutImage "''okteto.dev''" "''test''" "''test''" fakeCollaborators "''hash''" False]
          image_reference_resolution
            [of unitWithVolumes "''okteto.dev''" "''test''" "''test''" fakeCollaborators "''hash''" False]
          h1 h2 h3 r1 r2 r3
    by simp
qed

section \<open>A round that changes nothing\<close>

lemma areAllServicesBuilt_iff:
  "areAllServicesBuilt services control \<longleftrightarrow> set services \<subseteq> fst ` set control"
  by (induction services) (auto simp add: map_of_eq_None_iff)

lemma blocked_buildStep: "blocked svc st \<Longrightarrow> buildStep c options svc st = (None, st)"
  by (auto simp add: blocked_def buildStep_def dependsOn_def split: option.splits)

lemma stuck_buildRound:
  "list_all (\<lambda>svc. blocked svc st) svcs \<Longrightarrow> buildRound c options svcs st = (None, st)"
  by (induction svcs) (simp_all add: blocked_buildStep)

lemma buildLoop_fixed_round:
  assumes "length (builtImagesControl st) \<noteq> length toBuildSvcs"
    and "buildRound c options toBuildSvcs st = (None, st)"
  shows "buildLoop c options toBuildSvcs st = None"
proof (rule ccontr)
  assume "buildLoop c options toBuildSvcs st \<noteq> None"
  then obtain y where y: "buildLoop c options toBuildSvcs st = Some y" by blast
  have "\<not> (length (builtImagesControl st) \<noteq> length toBuildSvcs \<and>
           buildRound c options toBuildSvcs st = (None, st))"
  proof (rule buildLoop.raw_induct
      [where P = "\<lambda>c options toBuildSvcs st y.
          \<not> (length (builtImagesControl st) \<noteq> length toBuildSvcs \<and>
             buildRound c options toBuildSvcs st = (None, st))", OF _ y])
    fix loop :: "collaborators \<Rightarrow> BuildOptions \<Rightarrow> string list \<Rightarrow> build_state \<Rightarrow>
                 (error option \<times> build_state) option"
      and c options toBuildSvcs st y
    assume IH: "\<And>c options toBuildSvcs st y. loop c options toBuildSvcs st = Some y \<Longrightarrow>
        \<not> (length (builtImagesControl st) \<noteq> length toBuildSvcs \<and>
           buildRound c options toBuildSvcs st = (None, st))"
    assume step: "(if length (builtImagesControl st) \<noteq> length toBuildSvcs
        then case buildRound c options toBuildSvcs st of
               (None, st1) \<Rightarrow> loop c options toBuildSvcs st1
             | (Some err, st1) \<Rightarrow> Some (Some err, st1)
        else Some (None, st)) = Some y"
    show "\<not> (length (builtImagesControl st) \<noteq> length toBuildSvcs \<and>
           buildRound c options toBuildSvcs st = (None, st))"
    proof
      assume fixed: "length (builtImagesControl st) \<noteq> length toBuildSvcs \<and>
           buildRound c options toBuildSvcs st = (None, st)"
      with step have "loop c options toBuildSvcs st = Some y" by simp
      from IH[OF this] fixed show False by blast
    qed
  qed
  with assms show False by blast
qed

lemma afterRounds_buildLoop:
  "afterRounds c options toBuildSvcs n st0 = Some st \<Longrightarrow>
     buildLoop c options toBuildSvcs st0 = buildLoop c options toBuildSvcs st"
proof (induction n arbitrary: st0)
  case 0
  then show ?case by simp
next
  case (Suc n)
  from Suc.prems obtain st1 where
    cond: "length (builtImagesControl st0) \<noteq> length toBuildSvcs" and
    round: "buildRound c options toBuildSvcs st0 = (None, st1)" and
    rest: "afterRounds c options toBuildSvcs n st1 = Some st"
    by (auto split: if_splits prod.splits option.splits)
  have "buildLoop c options toBuildSvcs st0 = buildLoop c options toBuildSvcs st1"
    by (subst buildLoop.simps) (simp add: cond round)
  with Suc.IH[OF rest] show ?case by simp
qed

lemma Build_stuck:
  assumes prep: "prepareBuild c options0 m = Inr (options, toBuildSvcs, st0)"
    and reach: "afterRounds c options toBuildSvcs n st0 = Some st"
    and pending: "length (builtImagesControl st) \<noteq> length toBuildSvcs"
    and stuck: "list_all (\<lambda>svc. blocked svc st) toBuildSvcs"
  shows "Build c options0 m = None"
proof -
  have "buildLoop c options toBuildSvcs st = None"
    using pending stuck_buildRound[OF stuck] by (rule buildLoop_fixed_round)
  then have "buildLoop c options toBuildSvcs st0 = None"
    using afterRounds_buildLoop[OF reach] by simp
  then show ?thesis
    by (simp add: Build_def prep)
qed

text \<open>
  Claim C1, as stated, fails. In the plan where \<open>a\<close> depends on \<open>b\<close> and \<open>b\<close> on
  \<open>a\<close>, both selected and both in the manifest, the preparation passes, the first round
  skips both units, the control stays empty, and the loop goes on for ever: \<open>Build\<close> has
  no result at all, neither \<open>nil\<close> nor an error. The code has no scheduling error to
  return.
\<close>

theorem Build_cyclic_plan_never_returns:
  "Build fakeCollaborators emptyOptions cyclicPlan = None"
proof -
  let ?st = "\<lparr>manifest = cyclicPlan, builtImagesControl = [], trace = []\<rparr>"
  have prep: "prepareBuild fakeCollaborators emptyOptions cyclicPlan =
      Inr (emptyOptions, [''a'', ''b''], ?st)"
    by code_simp
  have round: "buildRound fakeCollaborators emptyOptions [''a'', ''b''] ?st = (None, ?st)"
    by code_simp
  have "buildLoop fakeCollaborators emptyOptions [''a'', ''b''] ?st = None"
    by (rule buildLoop_fixed_round[OF _ round]) simp
  then show ?thesis
    by (simp add: Build_def prep)
qed

text \<open>
  Claim C1, amended: what the code does with a plan that cannot be completed. When the
  loop of \<open>Build\<close> comes to a round with units still pending in which every unit to build
  is either built already or waits for a \<open>DependsOn\<close> entry that is not built (a cycle,
  or a dependency on a name that is not selected), \<open>Build\<close> never returns: the round
  changes nothing and the loop scans the units again, for ever. No scheduling error is
  produced.
\<close>

theorem Build_never_returns_when_stuck:
  assumes "prepareBuild c options0 m = Inr (options, toBuildSvcs, st0)"
    and "afterRounds c options toBuildSvcs n st0 = Some st"
    and "length (builtImagesControl st) \<noteq> length toBuildSvcs"
    and "list_all (\<lambda>svc. blocked svc st) toBuildSvcs"
  shows "Build c options0 m = None"
  using assms by (rule Build_stuck)

theorem Build_never_returns_when_stuck_witness:
  "prepareBuild fakeCollaborators emptyOptions partlyCyclicPlan =
     Inr (emptyOptions, [''a'', ''b'', ''c''], startState (BuildSection partlyCyclicPlan)) \<and>
   afterRounds fakeCollaborators emptyOptions [''a'', ''b'', ''c''] (Suc 0)
     (startState (BuildSection partlyCyclicPlan)) = Some afterFirstRound \<and>
   length (builtImagesControl afterFirstRound) \<noteq> length [''a'', ''b'', ''c''] \<and>
   list_all (\<lambda>svc. blocked svc afterFirstRound) [''a'', ''b'', ''c''] \<and>
   Build fakeCollaborators emptyOptions partlyCyclicPlan = None \<and>
   prepareBuild fakeCollaborators emptyOptions danglingPlan =
     Inr (emptyOptions, [''a''], startState (BuildSection danglingPlan)) \<and>
   list_all (\<lambda>svc. blocked svc (startState (BuildSection danglingPlan))) [''a''] \<and>
   Build fakeCollaborators emptyOptions danglingPlan = None"
proof -
  have p1: "prepareBuild fakeCollaborators emptyOptions partlyCyclicPlan =
     Inr (emptyOptions, [''a'', ''b'', ''c''], startState (BuildSection partlyCyclicPlan))"
    by code_simp
  have r1: "afterRounds fakeCollaborators emptyOptions [''a'', ''b'', ''c''] (Suc 0)
     (startState (BuildSection partlyCyclicPlan)) = Some afterFirstRound"
    by code_simp
  have l1: "length (builtImagesControl afterFirstRound) \<noteq> length [''a'', ''b'', ''c'']"
    by (simp add: afterFirstRound_def)
  have b1: "list_all (\<lambda>svc. blocked svc afterFirstRound) [''a'', ''b'', ''c'']"
    by code_simp
  have p2: "prepareBuild fakeCollaborators emptyOptions danglingPlan =
     Inr (emptyOptions, [''a''], startState (BuildSection danglingPlan))"
    by code_simp
  have r2: "afterRounds fakeCollaborators emptyOptions [''a''] 0
     (startState (BuildSection danglingPlan)) = Some (startState (BuildSection danglingPlan))"
    by simp
  have l2: "length (builtImagesControl (startState (BuildSection danglingPlan))) \<noteq> length [''a'']"
    by (simp add: startState_def)
  have b2: "list_all (\<lambda>svc. blocked svc (startState (BuildSection danglingPlan))) [''a'']"
    by code_simp
  note n1 = Build_never_returns_when_stuck[OF p1 r1 l1 b1]
  note n2 = Build_never_returns_when_stuck[OF p2 r2 l2 b2]
  show ?thesis
    using p1 r1 l1 b1 n1 p2 b2 n2 by (intro conjI)
qed

section \<open>What one pass of the loop body does\<close>

lemma buildSvcFromDockerfile_effect:
  assumes "buildSvcFromDockerfile c svc options st = (r, st')"
  shows "manifest st' = manifest st \<and> builtImagesControl st' = builtImagesControl st \<and>
         (\<exists>calls. trace st' = trace st @ calls \<and> list_all isCall calls)"
  using assms
  by (auto simp add: buildSvcFromDockerfile_def Let_def emit_def isCall_def
      split: option.splits sum.splits)

lemma addVolumeMounts_effect:
  assumes "addVolumeMounts c svc options st = (r, st')"
  shows "manifest st' = manifest st \<and> builtImagesControl st' = builtImagesControl st \<and>
         (\<exists>calls. trace st' = trace st @ calls \<and> list_all isCall calls)"
  using assms
  by (auto simp add: addVolumeMounts_def Let_def emit_def isCall_def
      split: option.splits sum.splits)

lemma setImage_effect:
  "dependsOn (manifest (setImage svc img st)) = dependsOn (manifest st) \<and>
   builtImagesControl (setImage svc img st) = builtImagesControl st \<and>
   trace (setImage svc img st) = trace st"
  by (auto simp add: setImage_def dependsOn_def update_conv' fun_eq_iff split: option.splits)

lemma buildServiceImages_effect:
  assumes "buildServiceImages c svc options st = (r, st')"
  shows "dependsOn (manifest st') = dependsOn (manifest st) \<and>
         builtImagesControl st' = builtImagesControl st \<and>
         (\<exists>calls. trace st' = trace st @ calls \<and> list_all isCall calls)"
proof (cases "map_of (BuildSection (manifest st)) svc")
  case None
  with assms show ?thesis by (simp add: buildServiceImages_def)
next
  case (Some info)
  consider (vanilla) "serviceHasVolumesToInclude info \<and> \<not> ctxIsOkteto c"
    | (both) "\<not> (serviceHasVolumesToInclude info \<and> \<not> ctxIsOkteto c)"
        "serviceHasDockerfile info \<and> serviceHasVolumesToInclude info"
    | (dockerfile) "\<not> (serviceHasVolumesToInclude info \<and> \<not> ctxIsOkteto c)"
        "serviceHasDockerfile info" "\<not> serviceHasVolumesToInclude info"
    | (volumes) "\<not> (serviceHasVolumesToInclude info \<and> \<not> ctxIsOkteto c)"
        "\<not> serviceHasDockerfile info" "serviceHasVolumesToInclude info"
    | (neither) "\<not> serviceHasDockerfile info" "\<not> serviceHasVolumesToInclude info"
    by blast
  then show ?thesis
  proof cases
    case vanilla
    with assms Some show ?thesis by (simp add: buildServiceImages_def)
  next
    case both
    obtain r1 st1 where first: "buildSvcFromDockerfile c svc options st = (r1, st1)"
      by (cases "buildSvcFromDockerfile c svc options st")
    note e1 = buildSvcFromDockerfile_effect[OF first]
    show ?thesis
    proof (cases r1)
      case (Inl err)
      with assms Some both first have "st' = st1"
        by (simp add: buildServiceImages_def)
      with e1 show ?thesis by simp
    next
      case (Inr img)
      with assms Some both first
      have second: "addVolumeMounts c svc options (setImage svc img st1) = (r, st')"
        by (simp add: buildServiceImages_def)
      note e2 = addVolumeMounts_effect[OF second]
      from e1 obtain calls1 where c1: "trace st1 = trace st @ calls1" "list_all isCall calls1"
        by blast
      from e2 obtain calls2 where
        c2: "trace st' = trace (setImage svc img st1) @ calls2" "list_all isCall calls2"
        by blast
      have "trace st' = trace st @ (calls1 @ calls2)" "list_all isCall (calls1 @ calls2)"
        using c1 c2 by (simp_all add: setImage_effect)
      then have "\<exists>calls. trace st' = trace st @ calls \<and> list_all isCall calls" by blast
      moreover have "dependsOn (manifest st') = dependsOn (manifest st)"
        using e1 e2 by (simp add: setImage_effect)
      moreover have "builtImagesControl st' = builtImagesControl st"
        using e1 e2 by (simp add: setImage_effect)
      ultimately show ?thesis by blast
    qed
  next
    case dockerfile
    with assms Some have "buildSvcFromDockerfile c svc options st = (r, st')"
      by (simp add: buildServiceImages_def)
    from buildSvcFromDockerfile_effect[OF this] show ?thesis by simp
  next
    case volumes
    then have "ctxIsOkteto c" by blast
    with assms Some volumes have "addVolumeMounts c svc options st = (r, st')"
      by (simp add: buildServiceImages_def)
    from addVolumeMounts_effect[OF this] show ?thesis by simp
  next
    case neither
    with assms Some have "st' = st" by (simp add: buildServiceImages_def)
    then show ?thesis by simp
  qed
qed

lemma isCall_okMid: "list_all isCall calls \<Longrightarrow> list_all (okMid svc cacheOn) calls"
  by (induction calls) (auto simp add: isCall_def okMid_def split: event.splits)

lemma buildAndMark_effect:
  assumes "buildAndMark c options svc info st = (res, st')"
  shows "dependsOn (manifest st') = dependsOn (manifest st) \<and>
         (\<exists>mid. list_all (okMid svc cacheOn) mid \<and> \<not> cacheQueried svc mid \<and>
            ((res = None \<and> (\<exists>img. trace st' = trace st @ mid @ [SetServiceEnvVars svc img]) \<and>
              builtImagesControl st' = AList.update svc True (builtImagesControl st)) \<or>
             (\<exists>e. res = Some e \<and> trace st' = trace st @ mid \<and>
                  builtImagesControl st' = builtImagesControl st \<and>
                  (BuildServiceImages svc \<in> set mid \<longrightarrow> (\<exists>err. e = ErrBuildingService svc err)))))"
proof (cases "\<not> ctxIsOkteto c \<and> Image info = []")
  case True
  with assms have "res = Some (ErrImageRequired svc)" "st' = st"
    by (simp_all add: buildAndMark_def)
  then have "list_all (okMid svc cacheOn) [] \<and> \<not> cacheQueried svc [] \<and>
      (\<exists>e. res = Some e \<and> trace st' = trace st @ [] \<and>
           builtImagesControl st' = builtImagesControl st \<and>
           (BuildServiceImages svc \<in> set [] \<longrightarrow> (\<exists>err. e = ErrBuildingService svc err)))"
    by (simp add: cacheQueried_def)
  with \<open>st' = st\<close> show ?thesis by blast
next
  case False
  let ?st0 = "emit (BuildServiceImages svc) st"
  obtain r st1 where run: "buildServiceImages c svc options ?st0 = (r, st1)"
    by (cases "buildServiceImages c svc options ?st0")
  from buildServiceImages_effect[OF run] obtain calls where
    deps: "dependsOn (manifest st1) = dependsOn (manifest st)" and
    built: "builtImagesControl st1 = builtImagesControl st" and
    tr: "trace st1 = trace st @ BuildServiceImages svc # calls" and
    calls: "list_all isCall calls"
    by (auto simp add: emit_def)
  let ?mid = "BuildServiceImages svc # calls"
  have mid: "list_all (okMid svc cacheOn) ?mid"
    using isCall_okMid[OF calls] by (simp add: okMid_def)
  have noq: "\<not> cacheQueried svc ?mid"
    using calls by (induction calls) (auto simp add: cacheQueried_def isCall_def split: event.splits)
  show ?thesis
  proof (cases r)
    case (Inl err)
    with assms False run have "res = Some (ErrBuildingService svc err)" "st' = st1"
      by (simp_all add: buildAndMark_def)
    with deps built tr mid noq show ?thesis by blast
  next
    case (Inr img)
    with assms False run have "res = None" "st' = markBuilt svc img st1"
      by (simp_all add: buildAndMark_def)
    then have "res = None" "trace st' = trace st @ ?mid @ [SetServiceEnvVars svc img]"
      "builtImagesControl st' = AList.update svc True (builtImagesControl st)"
      "dependsOn (manifest st') = dependsOn (manifest st)"
      using deps built tr by (simp_all add: markBuilt_def emit_def)
    with mid noq show ?thesis by blast
  qed
qed

lemma stepOutcome_after_attempt:
  assumes eff: "list_all (okMid svc cacheOn) mid" "\<not> cacheQueried svc mid"
      "(res = None \<and> (\<exists>img. trace st' = trace st1 @ mid @ [SetServiceEnvVars svc img]) \<and>
              builtImagesControl st' = AList.update svc True (builtImagesControl st1)) \<or>
             (\<exists>e. res = Some e \<and> trace st' = trace st1 @ mid \<and>
                  builtImagesControl st' = builtImagesControl st1 \<and>
                  (BuildServiceImages svc \<in> set mid \<longrightarrow> (\<exists>err. e = ErrBuildingService svc err)))"
    and pre: "list_all (okMid svc cacheOn) pre" "cacheQueried svc pre \<longleftrightarrow> cacheOn"
      "BuildServiceImages svc \<notin> set pre"
    and st1: "trace st1 = trace st @ Attempt svc # pre" "builtImagesControl st1 = builtImagesControl st"
  shows "stepOutcome svc cacheOn st res st' (pre @ mid)"
  using assms by (auto simp add: stepOutcome_def cacheQueried_def)

lemma buildStep_effect:
  assumes run: "buildStep c options svc st = (res, st')"
  shows "dependsOn (manifest st') = dependsOn (manifest st) \<and>
    ((blocked svc st \<and> st' = st \<and> res = None) \<or>
     (\<not> blocked svc st \<and> map_of (BuildSection (manifest st)) svc = None \<and>
      st' = st \<and> res = Some NilPointerPanic) \<or>
     (\<not> blocked svc st \<and> map_of (BuildSection (manifest st)) svc \<noteq> None \<and>
      (\<exists>mid. stepOutcome svc (cacheEnabled c options) st res st' mid)))"
proof (cases "skipServiceBuild svc (builtImagesControl st)")
  case True
  with run show ?thesis by (simp add: buildStep_def blocked_def)
next
  case noskip: False
  show ?thesis
  proof (cases "map_of (BuildSection (manifest st)) svc")
    case None
    with run noskip show ?thesis by (simp add: buildStep_def blocked_def dependsOn_def)
  next
    case (Some info)
    then have dep: "dependsOn (manifest st) svc = DependsOn info"
      by (simp add: dependsOn_def)
    show ?thesis
    proof (cases "areAllServicesBuilt (DependsOn info) (builtImagesControl st)")
      case False
      with run noskip Some dep show ?thesis by (simp add: buildStep_def blocked_def)
    next
      case due: True
      let ?on = "cacheEnabled c options"
      let ?st1 = "emit (Attempt svc) st"
      have goal: "dependsOn (manifest st') = dependsOn (manifest st) \<and>
                  (\<exists>mid. stepOutcome svc ?on st res st' mid)"
      proof (cases ?on)
        case off: False
        with run noskip Some due have "buildAndMark c options svc info ?st1 = (res, st')"
          by (simp add: buildStep_def Let_def)
        from buildAndMark_effect[OF this, of ?on] obtain mid where
          d: "dependsOn (manifest st') = dependsOn (manifest ?st1)" and
          m: "list_all (okMid svc ?on) mid" "\<not> cacheQueried svc mid"
             "(res = None \<and> (\<exists>img. trace st' = trace ?st1 @ mid @ [SetServiceEnvVars svc img]) \<and>
              builtImagesControl st' = AList.update svc True (builtImagesControl ?st1)) \<or>
             (\<exists>e. res = Some e \<and> trace st' = trace ?st1 @ mid \<and>
                  builtImagesControl st' = builtImagesControl ?st1 \<and>
                  (BuildServiceImages svc \<in> set mid \<longrightarrow> (\<exists>err. e = ErrBuildingService svc err)))"
          by blast
        have "stepOutcome svc ?on st res st' ([] @ mid)"
          by (rule stepOutcome_after_attempt[OF m]) (simp_all add: off cacheQueried_def emit_def)
        with d show ?thesis by (auto simp add: emit_def)
      next
        case on: True
        let ?hash = "hashService c info"
        let ?q = "CheckIfBuildHashIsBuilt (Name (manifest st)) svc ?hash"
        let ?st2 = "emit ?q ?st1"
        obtain imageWithDigest isBuilt where
          chk: "checkIfBuildHashIsBuilt c (trace ?st1) (serviceHasVolumesToInclude info)
                  (Name (manifest st)) svc ?hash = (imageWithDigest, isBuilt)"
          by (cases "checkIfBuildHashIsBuilt c (trace ?st1) (serviceHasVolumesToInclude info)
                  (Name (manifest st)) svc ?hash")
        have preq: "list_all (okMid svc ?on) [?q]" "cacheQueried svc [?q] \<longleftrightarrow> ?on"
          "BuildServiceImages svc \<notin> set [?q]"
          using on by (simp_all add: okMid_def cacheQueried_def)
        have st2: "trace ?st2 = trace st @ Attempt svc # [?q]"
          "builtImagesControl ?st2 = builtImagesControl st"
          "manifest ?st2 = manifest st"
          by (simp_all add: emit_def)
        show ?thesis
        proof (cases isBuilt)
          case False
          with run noskip Some due on chk
          have "buildAndMark c options svc info ?st2 = (res, st')"
            by (simp add: buildStep_def Let_def)
          from buildAndMark_effect[OF this, of ?on] obtain mid where
            d: "dependsOn (manifest st') = dependsOn (manifest ?st2)" and
            m: "list_all (okMid svc ?on) mid" "\<not> cacheQueried svc mid"
             "(res = None \<and> (\<exists>img. trace st' = trace ?st2 @ mid @ [SetServiceEnvVars svc img]) \<and>
              builtImagesControl st' = AList.update svc True (builtImagesControl ?st2)) \<or>
             (\<exists>e. res = Some e \<and> trace st' = trace ?st2 @ mid \<and>
                  builtImagesControl st' = builtImagesControl ?st2 \<and>
                  (BuildServiceImages svc \<in> set mid \<longrightarrow> (\<exists>err. e = ErrBuildingService svc err)))"
            by blast
          have "stepOutcome svc ?on st res st' ([?q] @ mid)"
            by (rule stepOutcome_after_attempt[OF m preq st2(1,2)])
          with d st2 show ?thesis by auto
        next
          case hit: True
          show ?thesis
          proof (cases "IsGlobalRegistry c imageWithDigest")
            case False
            with run noskip Some due on chk hit
            have "res = None" "st' = markBuilt svc imageWithDigest ?st2"
              by (simp_all add: buildStep_def Let_def)
            then have "stepOutcome svc ?on st res st' [?q]"
              using on by (simp add: stepOutcome_def markBuilt_def emit_def okMid_def cacheQueried_def)
            moreover have "dependsOn (manifest st') = dependsOn (manifest st)"
              using \<open>st' = markBuilt svc imageWithDigest ?st2\<close> by (simp add: markBuilt_def emit_def)
            ultimately show ?thesis by blast
          next
            case global: True
            let ?cl = "CloneGlobalImageToDev imageWithDigest ?hash"
            let ?st3 = "emit ?cl ?st2"
            show ?thesis
            proof (cases "cloneGlobalImageToDev c (trace ?st2) imageWithDigest ?hash")
              case (Inl err)
              with run noskip Some due on chk hit global
              have "res = Some err" "st' = ?st3"
                by (simp_all add: buildStep_def Let_def)
              then have "stepOutcome svc ?on st res st' [?q, ?cl]"
                using on by (simp add: stepOutcome_def emit_def okMid_def cacheQueried_def)
              moreover have "dependsOn (manifest st') = dependsOn (manifest st)"
                using \<open>st' = ?st3\<close> by (simp add: emit_def)
              ultimately show ?thesis by blast
            next
              case (Inr devImage)
              with run noskip Some due on chk hit global
              have "res = None" "st' = markBuilt svc devImage ?st3"
                by (simp_all add: buildStep_def Let_def)
              then have "stepOutcome svc ?on st res st' [?q, ?cl]"
                using on by (simp add: stepOutcome_def markBuilt_def emit_def okMid_def cacheQueried_def)
              moreover have "dependsOn (manifest st') = dependsOn (manifest st)"
                using \<open>st' = markBuilt svc devImage ?st3\<close> by (simp add: markBuilt_def emit_def)
              ultimately show ?thesis by blast
            qed
          qed
        qed
      qed
      with noskip due dep Some show ?thesis by (simp add: blocked_def)
    qed
  qed
qed

section \<open>The invariant of the loop\<close>

lemma exports_append: "exports (tr @ evs) = exports tr @ exports evs"
  by (induction tr rule: exports.induct) simp_all

lemma exports_mid: "list_all (okMid svc cacheOn) mid \<Longrightarrow> exports mid = []"
proof (induction mid)
  case (Cons e mid)
  then show ?case by (cases e) (simp_all add: okMid_def)
qed simp

lemma depsOrdered_append:
  "depsOrdered deps built (tr @ evs) \<longleftrightarrow>
     depsOrdered deps built tr \<and> depsOrdered deps (rev (exports tr) @ built) evs"
  by (induction deps built tr rule: depsOrdered.induct) simp_all

lemma depsOrdered_mid:
  "list_all (okMid svc cacheOn) mid \<Longrightarrow> depsOrdered deps built (mid @ rest) = depsOrdered deps built rest"
proof (induction mid)
  case (Cons e mid)
  then show ?case by (cases e) (simp_all add: okMid_def)
qed simp

lemma depsOrdered_mid_only:
  "list_all (okMid svc cacheOn) mid \<Longrightarrow> depsOrdered deps built mid"
  using depsOrdered_mid[of svc cacheOn mid deps built "[]"] by simp

lemma depsOrdered_attempted:
  "depsOrdered deps built tr \<Longrightarrow> Attempt svc \<in> set tr \<Longrightarrow>
     set (deps svc) \<subseteq> set built \<union> set (exports tr)"
  by (induction deps built tr rule: depsOrdered.induct) (auto simp add: list_all_iff)

lemma cacheQueried_append:
  "cacheQueried svc (tr @ evs) \<longleftrightarrow> cacheQueried svc tr \<or> cacheQueried svc evs"
  by (simp add: cacheQueried_def)

lemma cacheQueried_Cons:
  "cacheQueried svc (e # tr) \<longleftrightarrow> cacheQueried svc [e] \<or> cacheQueried svc tr"
  by (simp add: cacheQueried_def)

lemma mid_events:
  assumes "list_all (okMid svc cacheOn) mid"
  shows "Attempt s \<notin> set mid" and "BuildServiceImages s \<in> set mid \<Longrightarrow> s = svc"
    and "cacheQueried s mid \<Longrightarrow> s = svc"
  using assms
  by (induction mid; auto simp add: okMid_def cacheQueried_def split: event.splits)+

lemma update_True:
  "\<forall>kv \<in> set control. snd kv \<Longrightarrow> \<forall>kv \<in> set (AList.update svc True control). snd kv"
  by (induction control) auto

lemma noskip_absent:
  assumes "\<not> skipServiceBuild svc control" and "\<forall>kv \<in> set control. snd kv"
  shows "svc \<notin> fst ` set control"
proof
  assume "svc \<in> fst ` set control"
  then obtain v where "map_of control svc = Some v"
    by (metis domD dom_map_of_conv_image_fst)
  moreover from this have "(svc, v) \<in> set control" by (rule map_of_SomeD)
  ultimately show False using assms by (auto simp add: skipServiceBuild_def)
qed

lemma buildStep_schedInv:
  assumes inv: "schedInv deps (cacheEnabled c options) None st"
    and run: "buildStep c options svc st = (res, st')"
  shows "schedInv deps (cacheEnabled c options) res st'"
proof -
  let ?on = "cacheEnabled c options"
  from inv have
    i1: "dependsOn (manifest st) = deps" and
    i2: "depsOrdered deps [] (trace st)" and
    i3: "\<And>s. cacheQueried s (trace st) \<longleftrightarrow> ?on \<and> Attempt s \<in> set (trace st)" and
    i4: "\<And>s. BuildServiceImages s \<in> set (trace st) \<Longrightarrow> s \<in> set (exports (trace st))" and
    i5: "fst ` set (builtImagesControl st) = set (exports (trace st))" and
    i6: "\<forall>kv \<in> set (builtImagesControl st). snd kv"
    by (auto simp add: schedInv_def)
  from buildStep_effect[OF run] have
    deps': "dependsOn (manifest st') = deps" and
    cases: "(st' = st \<and> (res = None \<or> res = Some NilPointerPanic)) \<or>
     (\<not> skipServiceBuild svc (builtImagesControl st) \<and>
      areAllServicesBuilt (deps svc) (builtImagesControl st) \<and>
      (\<exists>mid. stepOutcome svc ?on st res st' mid))"
    using i1 by (auto simp add: blocked_def)
  from cases show ?thesis
  proof
    assume "st' = st \<and> (res = None \<or> res = Some NilPointerPanic)"
    with inv i4 show ?thesis by (auto simp add: schedInv_def)
  next
    assume "\<not> skipServiceBuild svc (builtImagesControl st) \<and>
      areAllServicesBuilt (deps svc) (builtImagesControl st) \<and>
      (\<exists>mid. stepOutcome svc ?on st res st' mid)"
    then obtain mid where
      noskip: "\<not> skipServiceBuild svc (builtImagesControl st)" and
      due: "areAllServicesBuilt (deps svc) (builtImagesControl st)" and
      out: "stepOutcome svc ?on st res st' mid"
      by blast
    from out have mid: "list_all (okMid svc ?on) mid" and q: "cacheQueried svc mid \<longleftrightarrow> ?on"
      by (simp_all add: stepOutcome_def)
    note me = mid_events[OF mid]
    have depsok: "list_all (\<lambda>dep. dep \<in> set (rev (exports (trace st)) @ [])) (deps svc)"
      using due i5 by (auto simp add: areAllServicesBuilt_iff list_all_iff)
    have absent: "svc \<notin> set (exports (trace st))"
      using noskip_absent[OF noskip i6] i5 by simp
    from out consider
      (built) img where "res = None" "trace st' = trace st @ Attempt svc # mid @ [SetServiceEnvVars svc img]"
        "builtImagesControl st' = AList.update svc True (builtImagesControl st)"
      | (failed) e where "res = Some e" "trace st' = trace st @ Attempt svc # mid"
        "builtImagesControl st' = builtImagesControl st"
        "BuildServiceImages svc \<in> set mid \<Longrightarrow> \<exists>err. e = ErrBuildingService svc err"
      by (auto simp add: stepOutcome_def)
    then show ?thesis
    proof cases
      case built
      have ex: "exports (trace st') = exports (trace st) @ [svc]"
        by (simp add: built(2) exports_append exports_mid[OF mid])
      have o: "depsOrdered deps [] (trace st')"
        using i2 depsok
        by (simp add: built(2) depsOrdered_append depsOrdered_mid_only[OF mid])
      have qq: "\<And>s. cacheQueried s (trace st') \<longleftrightarrow> ?on \<and> Attempt s \<in> set (trace st')"
        using i3 q me(1) me(3)
        by (auto simp add: built(2) cacheQueried_append cacheQueried_Cons[of _ "Attempt svc"]
            cacheQueried_def)
      have st: "s \<in> set (exports (trace st'))" if "BuildServiceImages s \<in> set (trace st')" for s
      proof -
        from that have "BuildServiceImages s \<in> set (trace st) \<or> BuildServiceImages s \<in> set mid"
          by (auto simp add: built(2))
        then show ?thesis
        proof
          assume "BuildServiceImages s \<in> set (trace st)"
          from i4[OF this] show ?thesis by (simp add: ex)
        next
          assume "BuildServiceImages s \<in> set mid"
          from me(2)[OF this] show ?thesis by (simp add: ex)
        qed
      qed
      have keys: "fst ` set (builtImagesControl st') = set (exports (trace st'))"
        using i5 by (simp add: built(3) ex dom_update)
      have vals: "\<forall>kv \<in> set (builtImagesControl st'). snd kv"
        using update_True[OF i6] by (simp add: built(3))
      show ?thesis
        using deps' o qq st keys vals by (simp add: schedInv_def built(1))
    next
      case failed
      have ex: "exports (trace st') = exports (trace st)"
        by (simp add: failed(2) exports_append exports_mid[OF mid])
      have o: "depsOrdered deps [] (trace st')"
        using i2 depsok
        by (simp add: failed(2) depsOrdered_append depsOrdered_mid_only[OF mid])
      have qq: "\<And>s. cacheQueried s (trace st') \<longleftrightarrow> ?on \<and> Attempt s \<in> set (trace st')"
        using i3 q me(1) me(3)
        by (auto simp add: failed(2) cacheQueried_append cacheQueried_Cons[of _ "Attempt svc"]
            cacheQueried_def)
      have st: "\<exists>err. res = Some (ErrBuildingService s err)"
        if "BuildServiceImages s \<in> set (trace st')" "s \<notin> set (exports (trace st'))" for s
      proof -
        from that(1) have "BuildServiceImages s \<in> set (trace st) \<or> BuildServiceImages s \<in> set mid"
          by (auto simp add: failed(2))
        then show ?thesis
        proof
          assume "BuildServiceImages s \<in> set (trace st)"
          from i4[OF this] that(2) show ?thesis by (simp add: ex)
        next
          assume m: "BuildServiceImages s \<in> set mid"
          from me(2)[OF m] have "s = svc" .
          with m failed(4) show ?thesis by (simp add: failed(1))
        qed
      qed
      show ?thesis
        using deps' o qq st by (simp add: schedInv_def failed(1))
    qed
  qed
qed

lemma buildRound_schedInv:
  assumes "schedInv deps (cacheEnabled c options) None st"
    and "buildRound c options svcs st = (res, st')"
  shows "schedInv deps (cacheEnabled c options) res st'"
  using assms
proof (induction svcs arbitrary: st)
  case Nil
  then show ?case by simp
next
  case (Cons svc svcs)
  obtain r1 st1 where step: "buildStep c options svc st = (r1, st1)"
    by (cases "buildStep c options svc st")
  note inv1 = buildStep_schedInv[OF Cons.prems(1) step]
  show ?case
  proof (cases r1)
    case None
    with Cons.prems(2) step have "buildRound c options svcs st1 = (res, st')" by simp
    from Cons.IH[OF _ this] inv1 None show ?thesis by simp
  next
    case (Some err)
    with Cons.prems(2) step have "res = Some err" "st' = st1" by simp_all
    with inv1 Some show ?thesis by simp
  qed
qed

lemma afterRounds_schedInv:
  assumes "schedInv deps (cacheEnabled c options) None st0"
    and "afterRounds c options toBuildSvcs n st0 = Some st"
  shows "schedInv deps (cacheEnabled c options) None st"
  using assms
proof (induction n arbitrary: st0)
  case 0
  then show ?case by simp
next
  case (Suc n)
  from Suc.prems(2) obtain st1 where
    round: "buildRound c options toBuildSvcs st0 = (None, st1)" and
    rest: "afterRounds c options toBuildSvcs n st1 = Some st"
    by (auto split: if_splits prod.splits option.splits)
  from buildRound_schedInv[OF Suc.prems(1) round] Suc.IH[OF _ rest] show ?case by simp
qed

lemma buildLoop_schedInv:
  assumes inv: "schedInv deps (cacheEnabled c options) None st0"
    and run: "buildLoop c options toBuildSvcs st0 = Some (res, st)"
  shows "schedInv deps (cacheEnabled c options) res st"
proof -
  have "schedInv deps (cacheEnabled c options) None st0 \<longrightarrow>
        schedInv deps (cacheEnabled c options) (fst (res, st)) (snd (res, st))"
  proof (rule buildLoop.raw_induct
      [where P = "\<lambda>c options toBuildSvcs st0 y.
          schedInv deps (cacheEnabled c options) None st0 \<longrightarrow>
          schedInv deps (cacheEnabled c options) (fst y) (snd y)", OF _ run])
    fix loop :: "collaborators \<Rightarrow> BuildOptions \<Rightarrow> string list \<Rightarrow> build_state \<Rightarrow>
                 (error option \<times> build_state) option"
      and c options toBuildSvcs st0 y
    assume IH: "\<And>c options toBuildSvcs st0 y. loop c options toBuildSvcs st0 = Some y \<Longrightarrow>
        schedInv deps (cacheEnabled c options) None st0 \<longrightarrow>
        schedInv deps (cacheEnabled c options) (fst y) (snd y)"
    assume step: "(if length (builtImagesControl st0) \<noteq> length toBuildSvcs
        then case buildRound c options toBuildSvcs st0 of
               (None, st1) \<Rightarrow> loop c options toBuildSvcs st1
             | (Some err, st1) \<Rightarrow> Some (Some err, st1)
        else Some (None, st0)) = Some y"
    show "schedInv deps (cacheEnabled c options) None st0 \<longrightarrow>
          schedInv deps (cacheEnabled c options) (fst y) (snd y)"
    proof
      assume inv0: "schedInv deps (cacheEnabled c options) None st0"
      obtain r1 st1 where round: "buildRound c options toBuildSvcs st0 = (r1, st1)"
        by (cases "buildRound c options toBuildSvcs st0")
      note inv1 = buildRound_schedInv[OF inv0 round]
      show "schedInv deps (cacheEnabled c options) (fst y) (snd y)"
      proof (cases "length (builtImagesControl st0) \<noteq> length toBuildSvcs")
        case False
        with step inv0 show ?thesis by auto
      next
        case True
        show ?thesis
        proof (cases r1)
          case None
          with step True round have "loop c options toBuildSvcs st1 = Some y" by simp
          from IH[OF this] inv1 None show ?thesis by simp
        next
          case (Some err)
          with step True round have "y = (Some err, st1)" by simp
          with inv1 Some show ?thesis by simp
        qed
      qed
    qed
  qed
  with inv show ?thesis by simp
qed

lemma prepareBuild_Inr:
  assumes "prepareBuild c options0 m = Inr (options, toBuildSvcs, st0)"
  shows "BuildSection (manifest st0) = BuildSection m \<and> builtImagesControl st0 = [] \<and>
         list_all isChdir (trace st0) \<and>
         NoCache options = NoCache options0 \<and> toBuildSvcs \<noteq> [] \<and>
         toBuildSvcs = getToBuildSvcs c m options0"
  using assms
  by (auto simp add: prepareBuild_def enterWorkdir_def inferManifestName_def Let_def emit_def
      validateOptions_def getToBuildSvcs_def isChdir_def
      split: if_splits option.splits sum.splits prod.splits)

lemma chdir_trace:
  assumes "list_all isChdir tr"
  shows "exports tr = []" and "depsOrdered deps built tr" and "\<not> cacheQueried svc tr"
    and "Attempt svc \<notin> set tr" and "BuildServiceImages svc \<notin> set tr"
  using assms
  by (induction tr; auto simp add: cacheQueried_def isChdir_def split: event.splits)+

lemma prepareBuild_schedInv:
  assumes prep: "prepareBuild c options0 m = Inr (options, toBuildSvcs, st0)"
  shows "schedInv (dependsOn m) (cacheEnabled c options) None st0"
proof -
  note p = prepareBuild_Inr[OF prep]
  from p have "dependsOn (manifest st0) = dependsOn m"
    by (simp add: dependsOn_def fun_eq_iff)
  moreover from p have "list_all isChdir (trace st0)"
    by simp
  note chdir_trace[OF this]
  ultimately show ?thesis using p by (simp add: schedInv_def)
qed

lemma Build_cases:
  assumes "Build c options0 m = Some (res, st')"
  shows "prepareBuild c options0 m = Inl (res, st') \<or>
         (\<exists>options toBuildSvcs st0 r.
            prepareBuild c options0 m = Inr (options, toBuildSvcs, st0) \<and>
            buildLoop c options toBuildSvcs st0 = Some (r, st') \<and>
            (r = res \<or> r = None))"
  using assms
  by (auto simp add: Build_def split: sum.splits option.splits prod.splits)

lemma prepareBuild_Inl:
  assumes "prepareBuild c options0 m = Inl (res, st')"
  shows "BuildSection (manifest st') = BuildSection m \<and> builtImagesControl st' = [] \<and>
         list_all isChdir (trace st')"
  using assms
  by (auto simp add: prepareBuild_def enterWorkdir_def inferManifestName_def Let_def emit_def
      isChdir_def split: if_splits option.splits sum.splits prod.splits)

lemma schedInv_weaken:
  assumes "schedInv deps cacheOn None st"
  shows "schedInv deps cacheOn res st"
  using assms by (auto simp add: schedInv_def)

lemma Build_schedInv:
  assumes run: "Build c options0 m = Some (res, st')"
  shows "schedInv (dependsOn m) (cacheEnabled c options0) res st'"
proof -
  from Build_cases[OF run] consider
    (early) "prepareBuild c options0 m = Inl (res, st')"
    | (loop) options toBuildSvcs st0 r where
        "prepareBuild c options0 m = Inr (options, toBuildSvcs, st0)"
        "buildLoop c options toBuildSvcs st0 = Some (r, st')"
        "r = res \<or> r = None"
    by blast
  then show ?thesis
  proof cases
    case early
    note p = prepareBuild_Inl[OF early]
    from p have d: "dependsOn (manifest st') = dependsOn m"
      by (simp add: dependsOn_def fun_eq_iff)
    from p have "list_all isChdir (trace st')"
      by simp
    note t = chdir_trace[OF this]
    show ?thesis using p d t by (simp add: schedInv_def)
  next
    case loop
    have on: "cacheEnabled c options = cacheEnabled c options0"
      using prepareBuild_Inr[OF loop(1)] by (simp add: cacheEnabled_def)
    from buildLoop_schedInv[OF prepareBuild_schedInv[OF loop(1)] loop(2)]
    have "schedInv (dependsOn m) (cacheEnabled c options0) r st'"
      by (simp add: on)
    with loop(3) show ?thesis by (auto intro: schedInv_weaken)
  qed
qed

section \<open>Properties of the scheduler\<close>

lemma set_exports: "set (exports tr) = {a. \<exists>img. SetServiceEnvVars a img \<in> set tr}"
proof (induction tr)
  case Nil
  show ?case by simp
next
  case (Cons e tr)
  then show ?case by (cases e) auto
qed

lemma depsOrdered_split:
  assumes "depsOrdered deps [] tr" and "tr = pre @ Attempt b # post" and "a \<in> set (deps b)"
  shows "\<exists>img. SetServiceEnvVars a img \<in> set pre"
proof -
  from assms(1,2) have "list_all (\<lambda>dep. dep \<in> set (rev (exports pre) @ [])) (deps b)"
    by (simp add: depsOrdered_append)
  with assms(3) have "a \<in> set (exports pre)"
    by (auto simp add: list_all_iff)
  then show ?thesis by (simp add: set_exports)
qed

lemma buildStep_at_build:
  assumes "\<not> blocked svc st" and "map_of (BuildSection (manifest st)) svc = Some info"
    and "\<not> cacheHit c options svc info st"
  shows "buildStep c options svc st =
           buildAndMark c options svc info (afterLookup c options svc info st)"
  using assms
  by (auto simp add: buildStep_def blocked_def dependsOn_def cacheHit_def cacheLookup_def
      afterLookup_def Let_def split: prod.splits)

lemma buildStep_cache_hit:
  assumes "\<not> blocked svc st" and "map_of (BuildSection (manifest st)) svc = Some info"
    and "cacheHit c options svc info st"
  shows "buildStep c options svc st =
     (if IsGlobalRegistry c (fst (cacheLookup c svc info st)) then
        (case cloneGlobalImageToDev c (trace (afterLookup c options svc info st))
                (fst (cacheLookup c svc info st)) (hashService c info) of
           Inl err \<Rightarrow>
             (Some err, emit (CloneGlobalImageToDev (fst (cacheLookup c svc info st)) (hashService c info))
                          (afterLookup c options svc info st))
         | Inr devImage \<Rightarrow>
             (None, markBuilt svc devImage
                      (emit (CloneGlobalImageToDev (fst (cacheLookup c svc info st)) (hashService c info))
                         (afterLookup c options svc info st))))
      else (None, markBuilt svc (fst (cacheLookup c svc info st)) (afterLookup c options svc info st)))"
  using assms
  by (auto simp add: buildStep_def blocked_def dependsOn_def cacheHit_def cacheLookup_def
      afterLookup_def Let_def split: prod.splits sum.splits)

lemma buildRound_append:
  "buildRound c options (pre @ rest) st =
     (case buildRound c options pre st of
        (Some err, st1) \<Rightarrow> (Some err, st1)
      | (None, st1) \<Rightarrow> buildRound c options rest st1)"
  by (induction pre arbitrary: st) (auto split: prod.splits option.splits)

lemma buildLoop_round_error:
  assumes "length (builtImagesControl st) \<noteq> length toBuildSvcs"
    and "buildRound c options toBuildSvcs st = (Some e, st')"
  shows "buildLoop c options toBuildSvcs st = Some (Some e, st')"
  by (subst buildLoop.simps) (simp add: assms)


lemma beforeUnit_Some:
  assumes "beforeUnit c options toBuildSvcs n pre st0 = Some sta"
  shows "\<exists>st. afterRounds c options toBuildSvcs n st0 = Some st \<and>
              length (builtImagesControl st) \<noteq> length toBuildSvcs \<and>
              buildRound c options pre st = (None, sta)"
  using assms
  by (auto simp add: beforeUnit_def split: option.splits if_splits prod.splits)

lemma Build_returns_step_error:
  assumes prep: "prepareBuild c options0 m = Inr (options, pre @ a # post, st0)"
    and at: "beforeUnit c options (pre @ a # post) n pre st0 = Some sta"
    and step: "buildStep c options a sta = (Some e, st')"
  shows "Build c options0 m = Some (Some e, st')"
proof -
  from beforeUnit_Some[OF at] obtain st where
    reach: "afterRounds c options (pre @ a # post) n st0 = Some st" and
    pending: "length (builtImagesControl st) \<noteq> length (pre @ a # post)" and
    before: "buildRound c options pre st = (None, sta)"
    by blast
  have "buildRound c options (pre @ a # post) st = (Some e, st')"
    by (simp add: buildRound_append before step)
  from buildLoop_round_error[OF pending this]
  have "buildLoop c options (pre @ a # post) st0 = Some (Some e, st')"
    using afterRounds_buildLoop[OF reach] by simp
  then show ?thesis
    by (simp add: Build_def prep)
qed

lemma failed_unit_not_exported:
  assumes inv: "schedInv deps (cacheEnabled c options) None sta"
    and step: "buildStep c options a sta = (Some e, st')"
  shows "a \<notin> set (exports (trace st'))"
proof -
  from inv have keys: "fst ` set (builtImagesControl sta) = set (exports (trace sta))"
    and vals: "\<forall>kv \<in> set (builtImagesControl sta). snd kv"
    by (simp_all add: schedInv_def)
  have noskip: "\<not> skipServiceBuild a (builtImagesControl sta)"
    using step by (auto simp add: buildStep_def)
  have absent: "a \<notin> set (exports (trace sta))"
    using noskip_absent[OF noskip vals] keys by simp
  from buildStep_effect[OF step] consider
    (same) "st' = sta"
    | (tried) mid where "stepOutcome a (cacheEnabled c options) sta (Some e) st' mid"
    by blast
  then show ?thesis
  proof cases
    case same
    with absent show ?thesis by simp
  next
    case tried
    then have "list_all (okMid a (cacheEnabled c options)) mid"
      and "trace st' = trace sta @ Attempt a # mid"
      by (auto simp add: stepOutcome_def)
    then have "exports (trace st') = exports (trace sta)"
      by (simp add: exports_append exports_mid)
    with absent show ?thesis by simp
  qed
qed

lemma failed_unit_dependents:
  assumes prep: "prepareBuild c options0 m = Inr (options, pre @ a # post, st0)"
    and at: "beforeUnit c options (pre @ a # post) n pre st0 = Some sta"
    and step: "buildStep c options a sta = (Some e, st')"
    and dep: "a \<in> set (dependsOn m b)"
  shows "Attempt b \<notin> set (trace st')"
proof
  assume tried: "Attempt b \<in> set (trace st')"
  from beforeUnit_Some[OF at] obtain st where
    reach: "afterRounds c options (pre @ a # post) n st0 = Some st" and
    before: "buildRound c options pre st = (None, sta)"
    by blast
  note inv0 = afterRounds_schedInv[OF prepareBuild_schedInv[OF prep] reach]
  note inva = buildRound_schedInv[OF inv0 before]
  note inv' = buildStep_schedInv[OF inva step]
  then have "depsOrdered (dependsOn m) [] (trace st')"
    by (simp add: schedInv_def)
  from depsOrdered_attempted[OF this tried]
  have "set (dependsOn m b) \<subseteq> set (exports (trace st'))"
    by simp
  with dep failed_unit_not_exported[OF inva step] show False
    by blast
qed

text \<open>
  Claim C3, as stated, fails. The order holds, but a failure of a unit does not always come
  back wrapped with the name of the unit. In the plan where \<open>b\<close> depends on \<open>a\<close>, with
  the cache enabled and the image of \<open>a\<close> found in the global registry, a failure of
  \<open>CloneGlobalImageToDev\<close> makes \<open>Build\<close> return that error as it is (line 237), not
  wrapped; \<open>b\<close> is not attempted.
\<close>

theorem Build_clone_failure_not_wrapped:
  "''a'' \<in> set (dependsOn dependentPlan ''b'') \<and>
   cloneGlobalImageToDev cloneFailingCollaborators
       [Attempt ''a'', CheckIfBuildHashIsBuilt ''test'' ''a'' ''hash'']
       ''okteto.global/a'' ''hash'' = Inl (CollaboratorError ''clone failed'') \<and>
   Build cloneFailingCollaborators emptyOptions dependentPlan =
     Some (Some (CollaboratorError ''clone failed''), cloneFailedState) \<and>
   Build cloneFailingCollaborators emptyOptions dependentPlan \<noteq>
     Some (Some (ErrBuildingService ''a'' (CollaboratorError ''clone failed'')), cloneFailedState)"
proof -
  have dep: "''a'' \<in> set (dependsOn dependentPlan ''b'')"
    by code_simp
  have clone: "cloneGlobalImageToDev cloneFailingCollaborators
       [Attempt ''a'', CheckIfBuildHashIsBuilt ''test'' ''a'' ''hash'']
       ''okteto.global/a'' ''hash'' = Inl (CollaboratorError ''clone failed'')"
    by code_simp
  have run: "Build cloneFailingCollaborators emptyOptions dependentPlan =
     Some (Some (CollaboratorError ''clone failed''), cloneFailedState)"
    by code_simp
  from dep clone run show ?thesis by simp
qed

text \<open>
  Claim C3, amended. In every plan, a unit is attempted only after every unit of its
  \<open>DependsOn\<close> list has been exported and recorded as built: at the head of the loop the
  units in the control are exactly the units the trace exports, and wherever the trace
  holds the \<open>Attempt\<close> of a unit \<open>b\<close>, the part of the trace before it holds the export
  of every unit \<open>b\<close> depends on. This holds after every round, whether it ended with an
  error or not, and in the state \<open>Build\<close> returns with. When the loop body returns an
  error on a unit \<open>a\<close>, in whichever round and wherever \<open>a\<close> stands in the plan,
  \<open>Build\<close> does return, with that error, and no unit that depends on \<open>a\<close> has been
  attempted. The error is the error of \<open>buildServiceImages\<close> wrapped with the name of
  \<open>a\<close> when the build of \<open>a\<close> failed; the image-required error, which names \<open>a\<close>, when
  \<open>a\<close> has no image in a context that is not okteto; and the error of
  \<open>CloneGlobalImageToDev\<close> as it is when cloning the cached image of \<open>a\<close> failed.
\<close>

theorem Build_dependency_order:
  "(prepareBuild c options0 m = Inr (options, toBuildSvcs, st0) \<and>
    afterRounds c options toBuildSvcs rounds st0 = Some st \<longrightarrow>
      fst ` set (builtImagesControl st) = {u. \<exists>img. SetServiceEnvVars u img \<in> set (trace st)} \<and>
      (\<forall>before b after u.
          trace (snd (buildRound c options toBuildSvcs st)) = before @ Attempt b # after \<and>
          u \<in> set (dependsOn m b) \<longrightarrow>
          (\<exists>img. SetServiceEnvVars u img \<in> set before))) \<and>
   (Build c options0 m = Some (res, st') \<longrightarrow>
      (\<forall>before b after u.
          trace st' = before @ Attempt b # after \<and> u \<in> set (dependsOn m b) \<longrightarrow>
          (\<exists>img. SetServiceEnvVars u img \<in> set before))) \<and>
   (prepareBuild c options0 m = Inr (options, pre @ a # post, st0) \<and>
    beforeUnit c options (pre @ a # post) n pre st0 = Some sta \<longrightarrow>
      (buildStep c options a sta = (Some e, st1) \<longrightarrow>
         Build c options0 m = Some (Some e, st1) \<and>
         (\<forall>b. a \<in> set (dependsOn m b) \<longrightarrow> Attempt b \<notin> set (trace st1))) \<and>
      (\<not> blocked a sta \<and> map_of (BuildSection (manifest sta)) a = Some info \<longrightarrow>
         (\<not> cacheHit c options a info sta \<and> (ctxIsOkteto c \<or> Image info \<noteq> []) \<and>
          buildServiceImages c a options
            (emit (BuildServiceImages a) (afterLookup c options a info sta)) = (Inl failure, st2) \<longrightarrow>
            Build c options0 m = Some (Some (ErrBuildingService a failure), st2)) \<and>
         (\<not> cacheHit c options a info sta \<and> \<not> ctxIsOkteto c \<and> Image info = [] \<longrightarrow>
            Build c options0 m = Some (Some (ErrImageRequired a), afterLookup c options a info sta)) \<and>
         (cacheHit c options a info sta \<and> IsGlobalRegistry c (fst (cacheLookup c a info sta)) \<and>
          cloneGlobalImageToDev c (trace (afterLookup c options a info sta))
            (fst (cacheLookup c a info sta)) (hashService c info) = Inl failure \<longrightarrow>
            Build c options0 m =
              Some (Some failure,
                    emit (CloneGlobalImageToDev (fst (cacheLookup c a info sta)) (hashService c info))
                      (afterLookup c options a info sta)))))"
proof -
  have order_round: "fst ` set (builtImagesControl st) = {u. \<exists>img. SetServiceEnvVars u img \<in> set (trace st)} \<and>
      (\<forall>before b after u.
          trace (snd (buildRound c options toBuildSvcs st)) = before @ Attempt b # after \<and>
          u \<in> set (dependsOn m b) \<longrightarrow>
          (\<exists>img. SetServiceEnvVars u img \<in> set before))"
    if a: "prepareBuild c options0 m = Inr (options, toBuildSvcs, st0) \<and>
           afterRounds c options toBuildSvcs rounds st0 = Some st"
  proof -
    from a have inv: "schedInv (dependsOn m) (cacheEnabled c options) None st"
      using afterRounds_schedInv[OF prepareBuild_schedInv] by blast
    from buildRound_schedInv[OF inv, of toBuildSvcs "fst (buildRound c options toBuildSvcs st)"
        "snd (buildRound c options toBuildSvcs st)"]
    have ordered: "depsOrdered (dependsOn m) [] (trace (snd (buildRound c options toBuildSvcs st)))"
      by (simp add: schedInv_def)
    have keys: "fst ` set (builtImagesControl st) =
        {u. \<exists>img. SetServiceEnvVars u img \<in> set (trace st)}"
      using inv by (simp add: schedInv_def set_exports)
    have "\<exists>img. SetServiceEnvVars u img \<in> set before"
      if "trace (snd (buildRound c options toBuildSvcs st)) = before @ Attempt b # after \<and>
          u \<in> set (dependsOn m b)" for before b after u
      using depsOrdered_split[OF ordered, of before b after u] that by blast
    with keys show ?thesis
      by blast
  qed
  have order_result: "\<forall>before b after u.
          trace st' = before @ Attempt b # after \<and> u \<in> set (dependsOn m b) \<longrightarrow>
          (\<exists>img. SetServiceEnvVars u img \<in> set before)"
    if run: "Build c options0 m = Some (res, st')"
  proof -
    from Build_schedInv[OF run] have ordered: "depsOrdered (dependsOn m) [] (trace st')"
      by (simp add: schedInv_def)
    have "\<exists>img. SetServiceEnvVars u img \<in> set before"
      if "trace st' = before @ Attempt b # after \<and> u \<in> set (dependsOn m b)"
      for before b after u
      using depsOrdered_split[OF ordered, of before b after u] that by blast
    then show ?thesis
      by blast
  qed
  have failfast: "Build c options0 m = Some (Some e, st1) \<and>
         (\<forall>b. a \<in> set (dependsOn m b) \<longrightarrow> Attempt b \<notin> set (trace st1))"
    if prep: "prepareBuild c options0 m = Inr (options, pre @ a # post, st0)"
      and at: "beforeUnit c options (pre @ a # post) n pre st0 = Some sta"
      and step: "buildStep c options a sta = (Some e, st1)" for e st1
    using Build_returns_step_error[OF prep at step] failed_unit_dependents[OF prep at step]
    by blast
  have exit_build: "buildStep c options a sta = (Some (ErrBuildingService a failure), st2)"
    if "\<not> blocked a sta" and "map_of (BuildSection (manifest sta)) a = Some info"
      and "\<not> cacheHit c options a info sta" and "ctxIsOkteto c \<or> Image info \<noteq> []"
      and "buildServiceImages c a options
            (emit (BuildServiceImages a) (afterLookup c options a info sta)) = (Inl failure, st2)"
  proof -
    have "buildStep c options a sta = buildAndMark c options a info (afterLookup c options a info sta)"
      using that(1,2,3) by (rule buildStep_at_build)
    also have "\<dots> = (Some (ErrBuildingService a failure), st2)"
      using that(4,5) by (auto simp add: buildAndMark_def)
    finally show ?thesis .
  qed
  have exit_image: "buildStep c options a sta = (Some (ErrImageRequired a), afterLookup c options a info sta)"
    if "\<not> blocked a sta" and "map_of (BuildSection (manifest sta)) a = Some info"
      and "\<not> cacheHit c options a info sta" and "\<not> ctxIsOkteto c \<and> Image info = []"
  proof -
    have "buildStep c options a sta = buildAndMark c options a info (afterLookup c options a info sta)"
      using that(1,2,3) by (rule buildStep_at_build)
    also have "\<dots> = (Some (ErrImageRequired a), afterLookup c options a info sta)"
      using that(4) by (simp add: buildAndMark_def)
    finally show ?thesis .
  qed
  have exit_clone: "buildStep c options a sta =
              (Some failure,
               emit (CloneGlobalImageToDev (fst (cacheLookup c a info sta)) (hashService c info))
                 (afterLookup c options a info sta))"
    if "\<not> blocked a sta" and "map_of (BuildSection (manifest sta)) a = Some info"
      and "cacheHit c options a info sta" and "IsGlobalRegistry c (fst (cacheLookup c a info sta))"
      and "cloneGlobalImageToDev c (trace (afterLookup c options a info sta))
            (fst (cacheLookup c a info sta)) (hashService c info) = Inl failure"
    using buildStep_cache_hit[OF that(1,2,3)] that(4,5) by simp
  have failing: "(buildStep c options a sta = (Some e, st1) \<longrightarrow>
         Build c options0 m = Some (Some e, st1) \<and>
         (\<forall>b. a \<in> set (dependsOn m b) \<longrightarrow> Attempt b \<notin> set (trace st1))) \<and>
      (\<not> blocked a sta \<and> map_of (BuildSection (manifest sta)) a = Some info \<longrightarrow>
         (\<not> cacheHit c options a info sta \<and> (ctxIsOkteto c \<or> Image info \<noteq> []) \<and>
          buildServiceImages c a options
            (emit (BuildServiceImages a) (afterLookup c options a info sta)) = (Inl failure, st2) \<longrightarrow>
            Build c options0 m = Some (Some (ErrBuildingService a failure), st2)) \<and>
         (\<not> cacheHit c options a info sta \<and> \<not> ctxIsOkteto c \<and> Image info = [] \<longrightarrow>
            Build c options0 m = Some (Some (ErrImageRequired a), afterLookup c options a info sta)) \<and>
         (cacheHit c options a info sta \<and> IsGlobalRegistry c (fst (cacheLookup c a info sta)) \<and>
          cloneGlobalImageToDev c (trace (afterLookup c options a info sta))
            (fst (cacheLookup c a info sta)) (hashService c info) = Inl failure \<longrightarrow>
            Build c options0 m =
              Some (Some failure,
                    emit (CloneGlobalImageToDev (fst (cacheLookup c a info sta)) (hashService c info))
                      (afterLookup c options a info sta))))"
    if a: "prepareBuild c options0 m = Inr (options, pre @ a # post, st0) \<and>
           beforeUnit c options (pre @ a # post) n pre st0 = Some sta"
  proof -
    from a have prep: "prepareBuild c options0 m = Inr (options, pre @ a # post, st0)"
      and at: "beforeUnit c options (pre @ a # post) n pre st0 = Some sta"
      by blast+
    note ff = failfast[OF prep at]
    have first: "buildStep c options a sta = (Some e, st1) \<longrightarrow>
         Build c options0 m = Some (Some e, st1) \<and>
         (\<forall>b. a \<in> set (dependsOn m b) \<longrightarrow> Attempt b \<notin> set (trace st1))"
      using ff by blast
    have rest: "(\<not> cacheHit c options a info sta \<and> (ctxIsOkteto c \<or> Image info \<noteq> []) \<and>
          buildServiceImages c a options
            (emit (BuildServiceImages a) (afterLookup c options a info sta)) = (Inl failure, st2) \<longrightarrow>
            Build c options0 m = Some (Some (ErrBuildingService a failure), st2)) \<and>
         (\<not> cacheHit c options a info sta \<and> \<not> ctxIsOkteto c \<and> Image info = [] \<longrightarrow>
            Build c options0 m = Some (Some (ErrImageRequired a), afterLookup c options a info sta)) \<and>
         (cacheHit c options a info sta \<and> IsGlobalRegistry c (fst (cacheLookup c a info sta)) \<and>
          cloneGlobalImageToDev c (trace (afterLookup c options a info sta))
            (fst (cacheLookup c a info sta)) (hashService c info) = Inl failure \<longrightarrow>
            Build c options0 m =
              Some (Some failure,
                    emit (CloneGlobalImageToDev (fst (cacheLookup c a info sta)) (hashService c info))
                      (afterLookup c options a info sta)))"
      if due: "\<not> blocked a sta \<and> map_of (BuildSection (manifest sta)) a = Some info"
    proof -
      from due have d: "\<not> blocked a sta" and l: "map_of (BuildSection (manifest sta)) a = Some info"
        by blast+
      have x1: "\<not> cacheHit c options a info sta \<and> (ctxIsOkteto c \<or> Image info \<noteq> []) \<and>
          buildServiceImages c a options
            (emit (BuildServiceImages a) (afterLookup c options a info sta)) = (Inl failure, st2) \<longrightarrow>
            Build c options0 m = Some (Some (ErrBuildingService a failure), st2)"
      proof
        assume h: "\<not> cacheHit c options a info sta \<and> (ctxIsOkteto c \<or> Image info \<noteq> []) \<and>
          buildServiceImages c a options
            (emit (BuildServiceImages a) (afterLookup c options a info sta)) = (Inl failure, st2)"
        then have "buildStep c options a sta = (Some (ErrBuildingService a failure), st2)"
          using exit_build[OF d l] by blast
        from ff[OF this] show "Build c options0 m = Some (Some (ErrBuildingService a failure), st2)"
          by blast
      qed
      have x2: "\<not> cacheHit c options a info sta \<and> \<not> ctxIsOkteto c \<and> Image info = [] \<longrightarrow>
            Build c options0 m = Some (Some (ErrImageRequired a), afterLookup c options a info sta)"
      proof
        assume h: "\<not> cacheHit c options a info sta \<and> \<not> ctxIsOkteto c \<and> Image info = []"
        then have "buildStep c options a sta =
            (Some (ErrImageRequired a), afterLookup c options a info sta)"
          using exit_image[OF d l] by blast
        from ff[OF this]
        show "Build c options0 m = Some (Some (ErrImageRequired a), afterLookup c options a info sta)"
          by blast
      qed
      have x3: "cacheHit c options a info sta \<and> IsGlobalRegistry c (fst (cacheLookup c a info sta)) \<and>
          cloneGlobalImageToDev c (trace (afterLookup c options a info sta))
            (fst (cacheLookup c a info sta)) (hashService c info) = Inl failure \<longrightarrow>
            Build c options0 m =
              Some (Some failure,
                    emit (CloneGlobalImageToDev (fst (cacheLookup c a info sta)) (hashService c info))
                      (afterLookup c options a info sta))"
      proof
        assume h: "cacheHit c options a info sta \<and> IsGlobalRegistry c (fst (cacheLookup c a info sta)) \<and>
          cloneGlobalImageToDev c (trace (afterLookup c options a info sta))
            (fst (cacheLookup c a info sta)) (hashService c info) = Inl failure"
        then have "buildStep c options a sta =
              (Some failure,
               emit (CloneGlobalImageToDev (fst (cacheLookup c a info sta)) (hashService c info))
                 (afterLookup c options a info sta))"
          using exit_clone[OF d l] by blast
        from ff[OF this]
        show "Build c options0 m =
              Some (Some failure,
                    emit (CloneGlobalImageToDev (fst (cacheLookup c a info sta)) (hashService c info))
                      (afterLookup c options a info sta))"
          by blast
      qed
      from x1 x2 x3 show ?thesis by (intro conjI)
    qed
    from first rest show ?thesis by blast
  qed
  from order_round order_result failing show ?thesis
    by blast
qed

theorem Build_dependency_order_witness:
  "prepareBuild fakeCollaborators emptyOptions dependentPlan =
     Inr (emptyOptions, [''b'', ''a''], startState (BuildSection dependentPlan)) \<and>
   afterRounds fakeCollaborators emptyOptions [''b'', ''a''] 0 (startState (BuildSection dependentPlan)) =
     Some (startState (BuildSection dependentPlan)) \<and>
   trace (snd (buildRound fakeCollaborators emptyOptions [''b'', ''a'']
                 (startState (BuildSection dependentPlan)))) = firstBuild \<and>
   Build fakeCollaborators emptyOptions dependentPlan =
     Some (None, \<lparr>manifest = dependentPlan, builtImagesControl = [(''a'', True), (''b'', True)],
                  trace = firstBuild @ Attempt ''b'' # secondBuild\<rparr>) \<and>
   ''a'' \<in> set (dependsOn dependentPlan ''b'') \<and>
   (\<exists>img. SetServiceEnvVars ''a'' img \<in> set firstBuild) \<and>
   beforeUnit failingCollaborators emptyOptions [''b'', ''a''] 0 [''b'']
       (startState (BuildSection dependentPlan)) =
     Some (startState (BuildSection dependentPlan)) \<and>
   buildServiceImages failingCollaborators ''a'' emptyOptions
       (emit (BuildServiceImages ''a'')
          (afterLookup failingCollaborators emptyOptions ''a'' unitA
             (startState (BuildSection dependentPlan)))) =
     (Inl (CollaboratorError ''build failed''), failedState) \<and>
   Build failingCollaborators emptyOptions dependentPlan =
     Some (Some (ErrBuildingService ''a'' (CollaboratorError ''build failed'')), failedState) \<and>
   Attempt ''b'' \<notin> set (trace failedState) \<and>
   Build vanillaCollaborators emptyOptions imagelessPlan =
     Some (Some (ErrImageRequired ''a''),
           \<lparr>manifest = imagelessPlan, builtImagesControl = [], trace = [Attempt ''a'']\<rparr>) \<and>
   Build cloneFailingCollaborators emptyOptions dependentPlan =
     Some (Some (CollaboratorError ''clone failed''), cloneFailedState)"
proof -
  let ?st0 = "startState (BuildSection dependentPlan)"
  let ?sti = "startState (BuildSection imagelessPlan)"
  let ?built = "\<lparr>manifest = dependentPlan, builtImagesControl = [(''a'', True), (''b'', True)],
                  trace = firstBuild @ Attempt ''b'' # secondBuild\<rparr>"
  let ?refused = "\<lparr>manifest = imagelessPlan, builtImagesControl = [], trace = [Attempt ''a'']\<rparr>"
  have prep: "prepareBuild fakeCollaborators emptyOptions dependentPlan =
     Inr (emptyOptions, [''b'', ''a''], ?st0)"
    by code_simp
  have reach: "afterRounds fakeCollaborators emptyOptions [''b'', ''a''] 0 ?st0 = Some ?st0"
    by simp
  have round: "trace (snd (buildRound fakeCollaborators emptyOptions [''b'', ''a''] ?st0)) = firstBuild"
    by code_simp
  have ok: "Build fakeCollaborators emptyOptions dependentPlan = Some (None, ?built)"
    by code_simp
  have split: "trace ?built = firstBuild @ Attempt ''b'' # secondBuild"
    by simp
  have dep: "''a'' \<in> set (dependsOn dependentPlan ''b'')"
    by (simp add: dependsOn_def dependentPlan_def manifestOf_def unitB_def)
  have depi: "''a'' \<in> set (dependsOn imagelessPlan ''b'')"
    by (simp add: dependsOn_def imagelessPlan_def manifestOf_def unitB_def)
  have prepf: "prepareBuild failingCollaborators emptyOptions dependentPlan =
     Inr (emptyOptions, [''b''] @ ''a'' # [], ?st0)"
    by code_simp
  have atf: "beforeUnit failingCollaborators emptyOptions ([''b''] @ ''a'' # []) 0 [''b''] ?st0 = Some ?st0"
    by code_simp
  have prepv: "prepareBuild vanillaCollaborators emptyOptions imagelessPlan =
     Inr (emptyOptions, [''b''] @ ''a'' # [], ?sti)"
    by code_simp
  have atv: "beforeUnit vanillaCollaborators emptyOptions ([''b''] @ ''a'' # []) 0 [''b''] ?sti = Some ?sti"
    by code_simp
  have prepc: "prepareBuild cloneFailingCollaborators emptyOptions dependentPlan =
     Inr (emptyOptions, [''b''] @ ''a'' # [], ?st0)"
    by code_simp
  have atc: "beforeUnit cloneFailingCollaborators emptyOptions ([''b''] @ ''a'' # []) 0 [''b''] ?st0 = Some ?st0"
    by code_simp
  have due: "\<not> blocked ''a'' ?st0 \<and> map_of (BuildSection (manifest ?st0)) ''a'' = Some unitA"
    by code_simp
  have duei: "\<not> blocked ''a'' ?sti \<and>
      map_of (BuildSection (manifest ?sti)) ''a'' = Some (unitA\<lparr>Image := []\<rparr>)"
    by code_simp
  have missf: "\<not> cacheHit failingCollaborators emptyOptions ''a'' unitA ?st0 \<and>
      (ctxIsOkteto failingCollaborators \<or> Image unitA \<noteq> [])"
    by code_simp
  have inner: "buildServiceImages failingCollaborators ''a'' emptyOptions
       (emit (BuildServiceImages ''a'') (afterLookup failingCollaborators emptyOptions ''a'' unitA ?st0)) =
     (Inl (CollaboratorError ''build failed''), failedState)"
    by code_simp
  have stepf: "buildStep failingCollaborators emptyOptions ''a'' ?st0 =
     (Some (ErrBuildingService ''a'' (CollaboratorError ''build failed'')), failedState)"
    by code_simp
  have missv: "\<not> cacheHit vanillaCollaborators emptyOptions ''a'' (unitA\<lparr>Image := []\<rparr>) ?sti \<and>
      \<not> ctxIsOkteto vanillaCollaborators \<and> Image (unitA\<lparr>Image := []\<rparr>) = []"
    by code_simp
  have atv2: "afterLookup vanillaCollaborators emptyOptions ''a'' (unitA\<lparr>Image := []\<rparr>) ?sti = ?refused"
    by code_simp
  have hitc: "cacheHit cloneFailingCollaborators emptyOptions ''a'' unitA ?st0 \<and>
      IsGlobalRegistry cloneFailingCollaborators
        (fst (cacheLookup cloneFailingCollaborators ''a'' unitA ?st0)) \<and>
      cloneGlobalImageToDev cloneFailingCollaborators
        (trace (afterLookup cloneFailingCollaborators emptyOptions ''a'' unitA ?st0))
        (fst (cacheLookup cloneFailingCollaborators ''a'' unitA ?st0))
        (hashService cloneFailingCollaborators unitA) = Inl (CollaboratorError ''clone failed'')"
    by code_simp
  have atc2: "emit (CloneGlobalImageToDev (fst (cacheLookup cloneFailingCollaborators ''a'' unitA ?st0))
                 (hashService cloneFailingCollaborators unitA))
            (afterLookup cloneFailingCollaborators emptyOptions ''a'' unitA ?st0) = cloneFailedState"
    by code_simp
  note order = Build_dependency_order
    [where c = fakeCollaborators and ?options0.0 = emptyOptions and m = dependentPlan
       and res = None and st' = ?built,
     THEN conjunct2, THEN conjunct1]
  note fail = Build_dependency_order
    [where c = failingCollaborators and ?options0.0 = emptyOptions and m = dependentPlan
       and options = emptyOptions and pre = "[''b'']" and a = "''a''" and post = "[]" and n = 0
       and ?st0.0 = ?st0 and sta = ?st0 and info = unitA
       and e = "ErrBuildingService ''a'' (CollaboratorError ''build failed'')" and ?st1.0 = failedState
       and failure = "CollaboratorError ''build failed''" and ?st2.0 = failedState,
     THEN conjunct2, THEN conjunct2]
  note image = Build_dependency_order
    [where c = vanillaCollaborators and ?options0.0 = emptyOptions and m = imagelessPlan
       and options = emptyOptions and pre = "[''b'']" and a = "''a''" and post = "[]" and n = 0
       and ?st0.0 = ?sti and sta = ?sti and info = "unitA\<lparr>Image := []\<rparr>"
       and e = "ErrImageRequired ''a''" and ?st1.0 = ?refused
       and failure = "CollaboratorError ''build failed''" and ?st2.0 = ?refused,
     THEN conjunct2, THEN conjunct2]
  note clone = Build_dependency_order
    [where c = cloneFailingCollaborators and ?options0.0 = emptyOptions and m = dependentPlan
       and options = emptyOptions and pre = "[''b'']" and a = "''a''" and post = "[]" and n = 0
       and ?st0.0 = ?st0 and sta = ?st0 and info = unitA
       and e = "CollaboratorError ''clone failed''" and ?st1.0 = cloneFailedState
       and failure = "CollaboratorError ''clone failed''" and ?st2.0 = cloneFailedState,
     THEN conjunct2, THEN conjunct2]
  have o1: "\<exists>img. SetServiceEnvVars ''a'' img \<in> set firstBuild"
    using order ok split dep by blast
  have o2: "Build failingCollaborators emptyOptions dependentPlan =
     Some (Some (ErrBuildingService ''a'' (CollaboratorError ''build failed'')), failedState)"
    using fail prepf atf due missf inner by blast
  have o3: "Attempt ''b'' \<notin> set (trace failedState)"
    using fail prepf atf stepf dep by blast
  have o4: "Build vanillaCollaborators emptyOptions imagelessPlan = Some (Some (ErrImageRequired ''a''),
      afterLookup vanillaCollaborators emptyOptions ''a'' (unitA\<lparr>Image := []\<rparr>) ?sti)"
    using image prepv atv duei missv by blast
  have o5: "Build cloneFailingCollaborators emptyOptions dependentPlan =
     Some (Some (CollaboratorError ''clone failed''),
           emit (CloneGlobalImageToDev (fst (cacheLookup cloneFailingCollaborators ''a'' unitA ?st0))
                 (hashService cloneFailingCollaborators unitA))
            (afterLookup cloneFailingCollaborators emptyOptions ''a'' unitA ?st0))"
    using clone prepc atc due hitc by blast
  have atf': "beforeUnit failingCollaborators emptyOptions [''b'', ''a''] 0 [''b''] ?st0 = Some ?st0"
    using atf by simp
  show ?thesis
    using prep reach round ok dep o1 atf' inner o2 o3 o4[unfolded atv2] o5[unfolded atc2]
    by (intro conjI)
qed






text \<open>
  Claim C4, as stated, fails. With an empty build section and no unit named on the command
  line, no unit is selected; \<open>validateOptions\<close> does report
  \<open>ErrNoServicesToBuildDefined\<close>, but \<open>Build\<close> tests for exactly that error and
  returns \<open>nil\<close>: the call succeeds with nothing built.
\<close>

theorem Build_empty_plan_succeeds:
  "Build fakeCollaborators emptyOptions (manifestOf []) = Some (None, startState [])"
  by code_simp

text \<open>
  Claim C4, amended. When no unit is selected to build, \<open>validateOptions\<close> reports
  \<open>ErrNoServicesToBuildDefined\<close>, and \<open>Build\<close> takes that as nothing to do: it returns
  with nothing built and no collaborator called but for the change of directory, and it
  returns \<open>nil\<close> unless changing the working directory or inferring the name of the
  manifest failed before.
\<close>

theorem Build_without_units_returns_nil:
  assumes none: "getToBuildSvcs c m options0 = []"
  shows "validateOptions m (getToBuildSvcs c m options0) options0 = Some ErrNoServicesToBuildDefined \<and>
         (\<exists>res st. Build c options0 m = Some (res, st) \<and>
            builtImagesControl st = [] \<and> list_all isChdir (trace st) \<and>
            (res = None \<or>
             (File options0 \<noteq> [] \<and> res = osChdir c (GetWorkdirFromManifestPath c (File options0))) \<or>
             (Name m = [] \<and> (\<exists>err. res = Some err \<and>
                (osGetwd c = Inl err \<or> K8sClientProvide c = Some err)))))"
proof -
  have v: "validateOptions m (getToBuildSvcs c m options0) options0 = Some ErrNoServicesToBuildDefined"
    by (simp add: none validateOptions_def)
  have nonone: "prepareBuild c options0 m \<noteq> Inr (options, toBuildSvcs, st0)" for options toBuildSvcs st0
  proof
    assume "prepareBuild c options0 m = Inr (options, toBuildSvcs, st0)"
    from prepareBuild_Inr[OF this] none show False by simp
  qed
  obtain res st where early: "prepareBuild c options0 m = Inl (res, st)"
    using nonone by (cases "prepareBuild c options0 m") auto
  then have run: "Build c options0 m = Some (res, st)"
    by (simp add: Build_def)
  have eff: "builtImagesControl st = [] \<and> list_all isChdir (trace st)"
    using prepareBuild_Inl[OF early] by simp
  have res: "res = None \<or>
             (File options0 \<noteq> [] \<and> res = osChdir c (GetWorkdirFromManifestPath c (File options0))) \<or>
             (Name m = [] \<and> (\<exists>err. res = Some err \<and>
                (osGetwd c = Inl err \<or> K8sClientProvide c = Some err)))"
    using early none
    by (auto simp add: prepareBuild_def enterWorkdir_def inferManifestName_def Let_def emit_def
        validateOptions_def getToBuildSvcs_def
        split: if_splits option.splits sum.splits prod.splits)
  show ?thesis using v run eff res by blast
qed

theorem Build_without_units_returns_nil_witness:
  "getToBuildSvcs fakeCollaborators ((manifestOf [])\<lparr>Name := []\<rparr>)
     (emptyOptions\<lparr>File := ''dir/okteto.yml''\<rparr>) = [] \<and>
   validateOptions ((manifestOf [])\<lparr>Name := []\<rparr>) [] (emptyOptions\<lparr>File := ''dir/okteto.yml''\<rparr>) =
     Some ErrNoServicesToBuildDefined \<and>
   Build fakeCollaborators (emptyOptions\<lparr>File := ''dir/okteto.yml''\<rparr>) ((manifestOf [])\<lparr>Name := []\<rparr>) =
     Some (None, \<lparr>manifest = manifestOf [], builtImagesControl = [],
                  trace = [Chdir ''dir/okteto.yml'']\<rparr>)"
proof -
  let ?m = "(manifestOf [])\<lparr>Name := []\<rparr>"
  let ?o = "emptyOptions\<lparr>File := ''dir/okteto.yml''\<rparr>"
  have none: "getToBuildSvcs fakeCollaborators ?m ?o = []"
    by code_simp
  have run: "Build fakeCollaborators ?o ?m =
     Some (None, \<lparr>manifest = manifestOf [], builtImagesControl = [],
                  trace = [Chdir ''dir/okteto.yml'']\<rparr>)"
    by code_simp
  from Build_without_units_returns_nil[OF none]
  have "validateOptions ?m [] ?o = Some ErrNoServicesToBuildDefined"
    by (simp add: none)
  with none run show ?thesis by simp
qed

end
